theory Spec2Isabelle
  imports Complex_Main "HOL-Library.Log_Nat"
begin

section \<open>The typing-practice session engine\<close>

text \<open>
  A shallow embedding of the session logic of the \<^verbatim>\<open>TypingPractice\<close> component.
  The component keeps its state in React hooks. An event handler reads the values of the
  render it was created in (its snapshot) and queues writes that become visible only in
  the next render; where one handler writes the same variable twice, the later write
  wins. Every handler below therefore takes the snapshot it reads from and the pending
  state it writes to.

  Numbers: cursor indices and counts are natural numbers, the accumulated statistics are
  integers, time stamps are integer milliseconds. A double is the rational it denotes:
  every division and multiplication of the source that can be inexact is rounded to the
  nearest double, ties to the even mantissa; division by zero is written out. Sounds,
  focus handling and the visible word range have no effect on the fields modelled here
  and are left out, as are the rooms.
\<close>

subsection \<open>Data\<close>

datatype TypingMode = Time | Words

datatype TypingDifficulty = Easy | Medium | Hard | Numbers | Mixed

datatype AccuracyMode = Strict | Relaxed

text \<open>A words-per-minute figure: \<^verbatim>\<open>Math.round(x / 0)\<close> is \<^verbatim>\<open>Infinity\<close> for positive \<open>x\<close>.\<close>

datatype number = Finite int | PosInfinity

record TypingStats =
  stats_wpm :: number
  stats_accuracy :: int
  stats_correctChars :: int
  stats_incorrectChars :: int
  stats_totalChars :: int
  stats_completedTests :: int

record TypingSettings =
  mode :: TypingMode
  difficulty :: TypingDifficulty
  timeLimit :: nat
  wordCount :: nat
  soundEnabled :: bool
  accuracyMode :: AccuracyMode

record Participant =
  p_name :: string
  p_wpm :: number
  p_accuracy :: int

record Challenge =
  challenge_id :: string
  creatorName :: string
  challenge_difficulty :: TypingDifficulty
  challenge_mode :: TypingMode
  challenge_limit :: nat
  expiresAt :: int
  bestWpm :: number
  bestAccuracy :: int
  participants :: "Participant list"

record practice =
  settings :: TypingSettings
  stats :: TypingStats
  words :: "string list"
  currentInput :: string
  currentWordIndex :: nat
  currentCharIndex :: nat
  correctChars :: "bool list"
  startTime :: int
  timeElapsed :: rat
  testActive :: bool
  testComplete :: bool
  currentWpm :: int
  currentAccuracy :: int
  userName :: string
  challenges :: "Challenge list"
  activeChallengeId :: "string option"
  errorPosition :: "nat option"

definition DEFAULT_SETTINGS :: TypingSettings where
  "DEFAULT_SETTINGS = \<lparr> mode = Time, difficulty = Medium, timeLimit = 30, wordCount = 25,
     soundEnabled = True, accuracyMode = Relaxed \<rparr>"

definition DEFAULT_STATS :: TypingStats where
  "DEFAULT_STATS = \<lparr> stats_wpm = Finite 0, stats_accuracy = 0, stats_correctChars = 0,
     stats_incorrectChars = 0, stats_totalChars = 0, stats_completedTests = 0 \<rparr>"

subsection \<open>Numbers and arrays of the host language\<close>

text \<open>
  Rounding to a double. A positive \<open>x\<close> with \<open>2 ^ k \<le> x < 2 ^ (k + 1)\<close> is \<open>m * 2 ^ (k - 52)\<close>
  for the integer \<open>m\<close> nearest to \<open>x / 2 ^ (k - 52)\<close>, the even one of two equally near.
  The exponent is found from the bit lengths of numerator and denominator. The limits of
  the exponent are not modelled: the quotients of the engine stay far inside them.
\<close>

definition pow2 :: "int \<Rightarrow> rat" where
  "pow2 k = (if 0 \<le> k then 2 ^ nat k else 1 / 2 ^ nat (- k))"

definition round_half_even :: "rat \<Rightarrow> int" where
  "round_half_even y =
     (let f = \<lfloor>y\<rfloor>; r = y - of_int f
      in if r < 1 / 2 then f else if 1 / 2 < r then f + 1
         else if even f then f else f + 1)"

definition exponent2 :: "rat \<Rightarrow> int" where
  "exponent2 x =
     (let k = bitlen (fst (quotient_of x)) - bitlen (snd (quotient_of x))
      in if pow2 k \<le> x then k else k - 1)"

definition to_double_pos :: "rat \<Rightarrow> rat" where
  "to_double_pos x =
     (let e = exponent2 x - 52 in of_int (round_half_even (x / pow2 e)) * pow2 e)"

definition to_double :: "rat \<Rightarrow> rat" where
  "to_double x =
     (if x = 0 then 0 else if 0 < x then to_double_pos x else - to_double_pos (- x))"

text \<open>\<^verbatim>\<open>Math.round\<close> rounds to the nearest integer, a half towards plus infinity.\<close>

definition js_round :: "rat \<Rightarrow> int" where
  "js_round x = \<lfloor>x + 1 / 2\<rfloor>"

fun num_less :: "number \<Rightarrow> number \<Rightarrow> bool" where
  "num_less (Finite a) (Finite b) = (a < b)"
| "num_less (Finite a) PosInfinity = True"
| "num_less PosInfinity b = False"

definition num_max :: "number \<Rightarrow> number \<Rightarrow> number" where
  "num_max a b = (if num_less a b then b else a)"

text \<open>
  An indexed write to an array. Past the end the array grows; the holes before the new
  entry read as \<^verbatim>\<open>undefined\<close>, which every reader of the bitmap takes for false.
\<close>

definition js_set :: "bool list \<Rightarrow> nat \<Rightarrow> bool \<Rightarrow> bool list" where
  "js_set xs i v =
     (if i < length xs then xs[i := v] else xs @ replicate (i - length xs) False @ [v])"

text \<open>\<^verbatim>\<open>newWords.join(" ")\<close>\<close>

fun joinWords :: "string list \<Rightarrow> string" where
  "joinWords [] = []"
| "joinWords [w] = w"
| "joinWords (w # ws) = w @ '' '' @ joinWords ws"

subsection \<open>Character offsets\<close>

text \<open>
  The loop of \<^verbatim>\<open>charOffsets\<close> runs over every word but the last, carrying the running
  total and the array built so far.
\<close>

fun offsets_loop :: "string list \<Rightarrow> nat \<Rightarrow> nat list \<Rightarrow> nat list" where
  "offsets_loop [] totalOffset offsets = offsets"
| "offsets_loop (w # ws) totalOffset offsets =
     offsets_loop ws (totalOffset + (length w + 1)) (offsets @ [totalOffset + (length w + 1)])"

definition charOffsets :: "string list \<Rightarrow> nat list" where
  "charOffsets ws = offsets_loop (butlast ws) 0 [0]"

text \<open>The offsets the loop appends, starting from a running total.\<close>

fun running :: "nat \<Rightarrow> string list \<Rightarrow> nat list" where
  "running t [] = []"
| "running t (w # ws) = (t + (length w + 1)) # running (t + (length w + 1)) ws"

subsection \<open>Word generation and reset\<close>

text \<open>
  \<^verbatim>\<open>generateWords\<close> shuffles the word pool of the chosen difficulty at random and
  takes a prefix of it. The shuffled pool is a parameter here.
\<close>

definition generateWords :: "TypingSettings \<Rightarrow> string list \<Rightarrow> string list" where
  "generateWords st shuffled =
     (let count = (if mode st = Words then wordCount st else min 300 (length shuffled))
      in take count shuffled)"

definition resetTest :: "string list \<Rightarrow> practice \<Rightarrow> practice" where
  "resetTest shuffled p =
     (let newWords = generateWords (settings p) shuffled;
          totalChars = length (joinWords newWords)
      in p\<lparr> words := newWords, currentInput := [], currentWordIndex := 0,
             currentCharIndex := 0, errorPosition := None,
             correctChars := replicate totalChars False,
             startTime := 0, timeElapsed := 0, testActive := False, testComplete := False,
             currentWpm := 0, currentAccuracy := 100 \<rparr>)"

subsection \<open>Metrics\<close>

definition getCompletedCharCount :: "practice \<Rightarrow> nat" where
  "getCompletedCharCount s =
     (if currentWordIndex s = 0 \<and> currentCharIndex s = 0 then 0
      else if length (charOffsets (words s)) = 0
              \<or> currentWordIndex s \<ge> length (charOffsets (words s)) then 0
      else charOffsets (words s) ! currentWordIndex s + currentCharIndex s)"

definition getCorrectCharCount :: "practice \<Rightarrow> nat" where
  "getCorrectCharCount s = length (filter (\<lambda>b. b) (correctChars s))"

definition calculateCurrentAccuracy :: "practice \<Rightarrow> int" where
  "calculateCurrentAccuracy s =
     (let totalChars = getCompletedCharCount s
      in if totalChars = 0 then 100
         else js_round (to_double
                (to_double (of_nat (getCorrectCharCount s) / of_nat totalChars) * 100)))"

definition calculateAccuracy :: "practice \<Rightarrow> int" where
  "calculateAccuracy s =
     (let totalChars = getCompletedCharCount s
      in if totalChars = 0 then 100
         else js_round (to_double
                (to_double (of_nat (getCorrectCharCount s) / of_nat totalChars) * 100)))"

text \<open>
  The final words per minute of \<^verbatim>\<open>endTest\<close>:
  \<^verbatim>\<open>Math.round(wordsTyped / minutes) || 0\<close>. With no time elapsed the quotient is
  \<^verbatim>\<open>NaN\<close> for no characters, which \<^verbatim>\<open>|| 0\<close> turns into 0, and \<^verbatim>\<open>Infinity\<close>
  otherwise.
\<close>

definition sessionWpm :: "practice \<Rightarrow> number" where
  "sessionWpm s =
     (let minutes = to_double (timeElapsed s / 60);
          charsTyped = getCompletedCharCount s;
          wordsTyped = to_double (of_nat charsTyped / 5)
      in if minutes = 0 then (if wordsTyped = 0 then Finite 0 else PosInfinity)
         else Finite (js_round (to_double (wordsTyped / minutes))))"

subsection \<open>Challenges\<close>

fun findIndex :: "('a \<Rightarrow> bool) \<Rightarrow> 'a list \<Rightarrow> nat option" where
  "findIndex P [] = None"
| "findIndex P (x # xs) = (if P x then Some 0 else map_option Suc (findIndex P xs))"

definition updateParticipants ::
  "string \<Rightarrow> number \<Rightarrow> int \<Rightarrow> Participant list \<Rightarrow> Participant list" where
  "updateParticipants user wpm accuracy ps =
     (case findIndex (\<lambda>p. p_name p = user) ps of
        Some existingUserIndex \<Rightarrow>
          (if num_less (p_wpm (ps ! existingUserIndex)) wpm
           then ps[existingUserIndex :=
                     (ps ! existingUserIndex)\<lparr> p_wpm := wpm, p_accuracy := accuracy \<rparr>]
           else ps)
      | None \<Rightarrow> ps @ [\<lparr> p_name = user, p_wpm = wpm, p_accuracy = accuracy \<rparr>])"

definition updateChallengeResult ::
  "Challenge list \<Rightarrow> string \<Rightarrow> string \<Rightarrow> number \<Rightarrow> int \<Rightarrow> Challenge list" where
  "updateChallengeResult chs user challengeId wpm accuracy =
     map (\<lambda>challenge.
            if challenge_id challenge = challengeId
            then challenge\<lparr> participants :=
                              updateParticipants user wpm accuracy (participants challenge),
                            bestWpm := num_max (bestWpm challenge) wpm,
                            bestAccuracy := max (bestAccuracy challenge) accuracy \<rparr>
            else challenge) chs"

subsection \<open>Ending a session\<close>

text \<open>
  \<^verbatim>\<open>endTest\<close> reads the snapshot \<open>s\<close> of its render and writes to \<open>p\<close>. The sums of
  integers are exact in doubles, and so is the half of the sum of two accuracies.
\<close>

definition endTest :: "practice \<Rightarrow> practice \<Rightarrow> practice" where
  "endTest s p =
     (let wpm = sessionWpm s;
          charsTyped = getCompletedCharCount s;
          accuracy = calculateAccuracy s;
          totalCorrectChars = getCorrectCharCount s;
          totalIncorrectChars = int charsTyped - int totalCorrectChars;
          newStats = \<lparr> stats_wpm = num_max (stats_wpm (stats s)) wpm,
                       stats_accuracy = js_round (of_int (stats_accuracy (stats s) + accuracy) / 2),
                       stats_correctChars = stats_correctChars (stats s) + int totalCorrectChars,
                       stats_incorrectChars = stats_incorrectChars (stats s) + totalIncorrectChars,
                       stats_totalChars = stats_totalChars (stats s) + int charsTyped,
                       stats_completedTests = stats_completedTests (stats s) + 1 \<rparr>;
          p1 = p\<lparr> testActive := False, testComplete := True, stats := newStats \<rparr>
      in case activeChallengeId s of
           None \<Rightarrow> p1
         | Some cid \<Rightarrow>
             if cid = [] then p1
             else p1\<lparr> challenges :=
                        updateChallengeResult (challenges s) (userName s) cid wpm accuracy \<rparr>)"

subsection \<open>The input handler\<close>

text \<open>The word under the cursor; \<^verbatim>\<open>!currentWord\<close> holds for a missing and for an empty word.\<close>

definition hasCurrentWord :: "practice \<Rightarrow> bool" where
  "hasCurrentWord s =
     (currentWordIndex s < length (words s) \<and> words s ! currentWordIndex s \<noteq> [])"

definition currentWord :: "practice \<Rightarrow> string" where
  "currentWord s = words s ! currentWordIndex s"

text \<open>\<^verbatim>\<open>currentWord[currentCharIndex]\<close>, \<^verbatim>\<open>undefined\<close> past the end of the word.\<close>

definition expectedChar :: "practice \<Rightarrow> char option" where
  "expectedChar s =
     (if currentCharIndex s < length (currentWord s)
      then Some (currentWord s ! currentCharIndex s) else None)"

text \<open>The branch taken once a separator has been accepted: move to the next word.\<close>

definition nextWord :: "practice \<Rightarrow> practice \<Rightarrow> practice" where
  "nextWord s p =
     (let newIndex = currentWordIndex s + 1;
          p1 = p\<lparr> currentWordIndex := newIndex, currentCharIndex := 0,
                   currentInput := [], errorPosition := None \<rparr>
      in if newIndex \<ge> length (words s) then endTest s p1
         else if mode (settings s) = Words \<and> newIndex \<ge> wordCount (settings s)
         then endTest s p1
         else p1)"

text \<open>
  The input grew: the last character of the new value is the typed one. The handler
  marks the position in the bitmap, refreshes the displayed accuracy, advances the
  character index as the policy says, and looks at a typed space last.
\<close>

definition updateCorrectChars :: "practice \<Rightarrow> practice \<Rightarrow> bool \<Rightarrow> practice" where
  "updateCorrectChars s p isCorrect =
     (if currentWordIndex s < length (charOffsets (words s))
         \<and> currentCharIndex s < length (currentWord s)
      then (let charPosition = charOffsets (words s) ! currentWordIndex s + currentCharIndex s
            in p\<lparr> correctChars := js_set (correctChars s) charPosition isCorrect \<rparr>)
      else p)"

definition incrementCharIndex :: "practice \<Rightarrow> practice \<Rightarrow> bool \<Rightarrow> string \<Rightarrow> practice" where
  "incrementCharIndex s p isCorrect v =
     (if accuracyMode (settings s) = Strict
      then (if isCorrect then p\<lparr> currentCharIndex := currentCharIndex s + 1 \<rparr>
            else p)\<lparr> currentInput := v \<rparr>
      else p\<lparr> currentCharIndex := currentCharIndex s + 1, currentInput := v \<rparr>)"

definition checkSpace :: "practice \<Rightarrow> practice \<Rightarrow> practice" where
  "checkSpace s p =
     (if accuracyMode (settings s) = Strict \<and> errorPosition s \<noteq> None then p
      else if currentCharIndex s = length (currentWord s)
              \<or> accuracyMode (settings s) = Relaxed
      then nextWord s p
      else p)"

definition onCharTyped :: "practice \<Rightarrow> practice \<Rightarrow> string \<Rightarrow> practice" where
  "onCharTyped s p v =
     (let typedChar = last v;
          isCorrect = (expectedChar s = Some typedChar);
          p1 = updateCorrectChars s p isCorrect;
          p2 = p1\<lparr> currentAccuracy := calculateCurrentAccuracy s \<rparr>;
          p3 = incrementCharIndex s p2 isCorrect v
      in if typedChar = CHR '' '' then checkSpace s p3 else p3)"

text \<open>
  The input shrank. At the start of a word other than the first the cursor returns to
  the end of the previous word; inside a word it steps back, the mark of the deleted
  character is removed and an error marker at or after the new position is cleared.
\<close>

definition previousWord :: "practice \<Rightarrow> practice \<Rightarrow> practice" where
  "previousWord s p =
     (let prevWord = words s ! (currentWordIndex s - 1)
      in if prevWord = [] then p
         else p\<lparr> currentWordIndex := currentWordIndex s - 1,
                  currentCharIndex := length prevWord,
                  currentInput := prevWord \<rparr>)"

definition removeMark :: "practice \<Rightarrow> practice \<Rightarrow> practice" where
  "removeMark s p =
     (if currentWordIndex s < length (charOffsets (words s)) then
        (let charPosition = charOffsets (words s) ! currentWordIndex s + currentCharIndex s - 1
         in if charPosition < length (correctChars s)
            then p\<lparr> correctChars := (correctChars s)[charPosition := False] \<rparr>
            else p)
      else p)"

definition clearErrorPosition :: "practice \<Rightarrow> practice \<Rightarrow> practice" where
  "clearErrorPosition s p =
     (if accuracyMode (settings s) = Strict
         \<and> (case errorPosition s of
               None \<Rightarrow> False
             | Some e \<Rightarrow> currentCharIndex s - 1 \<le> e)
      then p\<lparr> errorPosition := None \<rparr> else p)"

definition onBackspace :: "practice \<Rightarrow> practice \<Rightarrow> string \<Rightarrow> practice" where
  "onBackspace s p v =
     (if currentCharIndex s = 0 \<and> currentWordIndex s > 0 then previousWord s p
      else if currentCharIndex s > 0 then
        (let p1 = p\<lparr> currentCharIndex := currentCharIndex s - 1, currentInput := v \<rparr>;
             p2 = removeMark s p1;
             p3 = clearErrorPosition s p2
         in p3\<lparr> currentAccuracy := calculateCurrentAccuracy s \<rparr>)
      else p)"

text \<open>
  \<^verbatim>\<open>handleInputChange\<close>: \<open>now\<close> is the clock reading, \<open>s\<close> the state of the current
  render, \<open>v\<close> the new value of the input field.
\<close>

definition handleInputChange :: "int \<Rightarrow> practice \<Rightarrow> string \<Rightarrow> practice" where
  "handleInputChange now s v =
     (if testComplete s then s
      else
        (let p = (if \<not> testActive s \<and> length v > 0
                  then s\<lparr> testActive := True, startTime := now \<rparr> else s)
         in if \<not> hasCurrentWord s then p
            else if length v > length (currentInput s) then onCharTyped s p v
            else if length v < length (currentInput s) then onBackspace s p v
            else p))"

text \<open>
  The input field is controlled by \<^verbatim>\<open>currentInput\<close>. A key pressed with the caret at the
  end of the field delivers the field's text with the character appended; backspace
  delivers it without its last character, and delivers nothing when the field is empty.
\<close>

definition typeChar :: "int \<Rightarrow> practice \<Rightarrow> char \<Rightarrow> practice" where
  "typeChar now s c = handleInputChange now s (currentInput s @ [c])"

definition pressBackspace :: "int \<Rightarrow> practice \<Rightarrow> practice" where
  "pressBackspace now s =
     (if currentInput s = [] then s else handleInputChange now s (butlast (currentInput s)))"

fun typeKeys :: "int \<Rightarrow> practice \<Rightarrow> string \<Rightarrow> practice" where
  "typeKeys now s [] = s"
| "typeKeys now s (c # cs) = typeKeys now (typeChar now s c) cs"

subsection \<open>The timer\<close>

text \<open>
  The interval callback belongs to the render \<open>c\<close> in which the timer effect last ran
  (the session was active and not complete there); it fires later, when the state is
  \<open>p\<close>. It may call \<^verbatim>\<open>endTest\<close> twice, both times on the snapshot \<open>c\<close>.
\<close>

definition tick :: "practice \<Rightarrow> int \<Rightarrow> practice \<Rightarrow> practice" where
  "tick c now p =
     (if testActive c \<and> \<not> testComplete c then
        (let elapsed = to_double (of_int (now - startTime c) / 1000);
             p1 = p\<lparr> timeElapsed := elapsed \<rparr>;
             charsTyped = getCompletedCharCount c;
             wordsTyped = to_double (of_nat charsTyped / 5);
             minutesElapsed = to_double (elapsed / 60);
             p2 = (if minutesElapsed > 0
                   then p1\<lparr> currentWpm := js_round (to_double (wordsTyped / minutesElapsed)) \<rparr>
                   else p1);
             p3 = (if mode (settings c) = Time \<and> elapsed \<ge> of_nat (timeLimit (settings c))
                   then endTest c p2 else p2);
             p4 = (if mode (settings c) = Time \<and> currentWordIndex c \<ge> length (words c)
                   then endTest c p3 else p3)
         in p4)
      else p)"

subsection \<open>Initial state, invariants and sample sessions\<close>

text \<open>The initial values of the component's state hooks.\<close>

definition initialState :: practice where
  "initialState = \<lparr> settings = DEFAULT_SETTINGS, stats = DEFAULT_STATS, words = [],
     currentInput = [], currentWordIndex = 0, currentCharIndex = 0, correctChars = [],
     startTime = 0, timeElapsed = 0, testActive = False, testComplete = False,
     currentWpm = 0, currentAccuracy = 100, userName = [], challenges = [],
     activeChallengeId = None, errorPosition = None \<rparr>"

text \<open>A fresh session over the given words under the given policy and mode.\<close>

definition freshSession :: "AccuracyMode \<Rightarrow> TypingMode \<Rightarrow> string list \<Rightarrow> practice" where
  "freshSession policy m ws =
     resetTest ws (initialState\<lparr> settings :=
        DEFAULT_SETTINGS\<lparr> accuracyMode := policy, mode := m, wordCount := length ws \<rparr> \<rparr>)"

text \<open>
  A challenge as \<^verbatim>\<open>createChallenge\<close> builds it under the default settings: no
  participants yet, best figures 0.
\<close>

definition sampleChallenge :: Challenge where
  "sampleChallenge = \<lparr> challenge_id = ''1'', creatorName = ''bob'',
     challenge_difficulty = Medium, challenge_mode = Time, challenge_limit = 30,
     expiresAt = 86400000, bestWpm = Finite 0, bestAccuracy = 0, participants = [] \<rparr>"

text \<open>The cursor invariant of the data model.\<close>

definition wordIndex_ok :: "practice \<Rightarrow> bool" where
  "wordIndex_ok s = (currentWordIndex s \<le> length (words s))"

definition cursor_ok :: "practice \<Rightarrow> bool" where
  "cursor_ok s =
     (currentWordIndex s \<le> length (words s)
      \<and> (currentWordIndex s < length (words s) \<longrightarrow>
            currentCharIndex s \<le> length (words s ! currentWordIndex s)))"

text \<open>The bitmap has one entry per character of the space-joined words, as after a reset.\<close>

definition bitmap_sized :: "practice \<Rightarrow> bool" where
  "bitmap_sized s = (length (correctChars s) = length (joinWords (words s)))"

text \<open>The absolute position of the cursor.\<close>

definition cursorPosition :: "practice \<Rightarrow> nat" where
  "cursorPosition s = charOffsets (words s) ! currentWordIndex s + currentCharIndex s"

text \<open>
  The one keystroke that takes the character index out of the current word: under the
  relaxed policy, a character other than the separator typed with the cursor at the end
  of the word.
\<close>

definition typesPastWordEnd :: "practice \<Rightarrow> string \<Rightarrow> bool" where
  "typesPastWordEnd s v =
     (\<not> testComplete s \<and> hasCurrentWord s \<and> accuracyMode (settings s) = Relaxed
      \<and> length (currentInput s) < length v \<and> last v \<noteq> CHR '' ''
      \<and> currentCharIndex s = length (currentWord s))"

text \<open>The condition under which a typed space moves on to the next word.\<close>

definition separatorAccepted :: "practice \<Rightarrow> bool" where
  "separatorAccepted s =
     (\<not> (accuracyMode (settings s) = Strict \<and> errorPosition s \<noteq> None)
      \<and> (currentCharIndex s = length (currentWord s) \<or> accuracyMode (settings s) = Relaxed))"

section \<open>Properties\<close>

subsection \<open>Rounding in doubles\<close>

text \<open>
  The rounding at work: the double of one tenth, two ties resolved to the even mantissa,
  and three figures of the engine where rounding each operation changes the result:
  23 correct characters of 40 give the accuracy 57, since \<open>(23 / 40) * 100\<close> falls just
  below 57.5 in doubles, and 3 characters in 1.6 seconds give 22 words per minute.
\<close>

lemma double_rounding_examples:
  "to_double (1 / 10) = 3602879701896397 / 36028797018963968"
  "to_double (2 ^ 53 + 1) = 2 ^ 53"
  "to_double (2 ^ 53 + 3) = 2 ^ 53 + 4"
  "to_double (to_double (23 / 40) * 100) < 115 / 2"
  "calculateAccuracy (initialState\<lparr> words := [replicate 40 (CHR ''a'')],
       currentCharIndex := 40,
       correctChars := replicate 23 True @ replicate 17 False \<rparr>) = 57"
  "sessionWpm (initialState\<lparr> words := [''abc''], currentCharIndex := 3,
       timeElapsed := to_double (1600 / 1000) \<rparr>) = Finite 22"
  "currentWpm (tick (initialState\<lparr> words := [''abc''], currentCharIndex := 3,
                      settings := DEFAULT_SETTINGS\<lparr> mode := Words \<rparr>, testActive := True \<rparr>)
                 1600 initialState) = 22"
  by code_simp+

subsection \<open>What each step of the handlers writes\<close>

lemma endTest_frame:
  "words (endTest s p) = words p"
  "currentWordIndex (endTest s p) = currentWordIndex p"
  "currentCharIndex (endTest s p) = currentCharIndex p"
  "correctChars (endTest s p) = correctChars p"
  "currentInput (endTest s p) = currentInput p"
  "errorPosition (endTest s p) = errorPosition p"
  "settings (endTest s p) = settings p"
  "testComplete (endTest s p) = True"
  "testActive (endTest s p) = False"
  by (simp_all add: endTest_def Let_def split: option.splits)

lemma nextWord_frame:
  "words (nextWord s p) = words p"
  "currentWordIndex (nextWord s p) = currentWordIndex s + 1"
  "currentCharIndex (nextWord s p) = 0"
  "correctChars (nextWord s p) = correctChars p"
  "currentInput (nextWord s p) = []"
  "errorPosition (nextWord s p) = None"
  "settings (nextWord s p) = settings p"
  by (simp_all add: nextWord_def Let_def endTest_frame)

lemma updateCorrectChars_frame:
  "words (updateCorrectChars s p b) = words p"
  "currentWordIndex (updateCorrectChars s p b) = currentWordIndex p"
  "currentCharIndex (updateCorrectChars s p b) = currentCharIndex p"
  "currentInput (updateCorrectChars s p b) = currentInput p"
  "errorPosition (updateCorrectChars s p b) = errorPosition p"
  "settings (updateCorrectChars s p b) = settings p"
  "testComplete (updateCorrectChars s p b) = testComplete p"
  by (simp_all add: updateCorrectChars_def Let_def)

lemma incrementCharIndex_frame:
  "words (incrementCharIndex s p b v) = words p"
  "currentWordIndex (incrementCharIndex s p b v) = currentWordIndex p"
  "correctChars (incrementCharIndex s p b v) = correctChars p"
  "currentInput (incrementCharIndex s p b v) = v"
  "errorPosition (incrementCharIndex s p b v) = errorPosition p"
  "settings (incrementCharIndex s p b v) = settings p"
  "testComplete (incrementCharIndex s p b v) = testComplete p"
  by (simp_all add: incrementCharIndex_def)

lemma incrementCharIndex_charIndex:
  "currentCharIndex (incrementCharIndex s p b v) =
     (if accuracyMode (settings s) = Strict \<and> \<not> b then currentCharIndex p
      else currentCharIndex s + 1)"
  by (simp add: incrementCharIndex_def)

lemma checkSpace_frame:
  "words (checkSpace s p) = words p"
  "correctChars (checkSpace s p) = correctChars p"
  "settings (checkSpace s p) = settings p"
  by (simp_all add: checkSpace_def nextWord_frame)

lemma checkSpace_cursor:
  "currentWordIndex (checkSpace s p) =
     (if separatorAccepted s then currentWordIndex s + 1 else currentWordIndex p)"
  "currentCharIndex (checkSpace s p) =
     (if separatorAccepted s then 0 else currentCharIndex p)"
  by (auto simp add: checkSpace_def separatorAccepted_def nextWord_frame)

lemma onCharTyped_frame:
  "words (onCharTyped s p v) = words p"
  "settings (onCharTyped s p v) = settings p"
  by (simp_all add: onCharTyped_def Let_def checkSpace_frame incrementCharIndex_frame
        updateCorrectChars_frame)

lemma onCharTyped_wordIndex:
  "currentWordIndex (onCharTyped s p v) =
     (if last v = CHR '' '' \<and> separatorAccepted s then currentWordIndex s + 1
      else currentWordIndex p)"
  by (simp add: onCharTyped_def Let_def checkSpace_cursor incrementCharIndex_frame
        updateCorrectChars_frame)

lemma onCharTyped_charIndex:
  "currentCharIndex (onCharTyped s p v) =
     (if last v = CHR '' '' \<and> separatorAccepted s then 0
      else if accuracyMode (settings s) = Strict \<and> expectedChar s \<noteq> Some (last v)
      then currentCharIndex p
      else currentCharIndex s + 1)"
  by (auto simp add: onCharTyped_def Let_def checkSpace_cursor incrementCharIndex_charIndex
        updateCorrectChars_frame)

lemma onCharTyped_correctChars:
  "correctChars (onCharTyped s p v) =
     (if currentWordIndex s < length (charOffsets (words s))
         \<and> currentCharIndex s < length (currentWord s)
      then js_set (correctChars s) (cursorPosition s) (expectedChar s = Some (last v))
      else correctChars p)"
  by (simp add: onCharTyped_def Let_def checkSpace_frame incrementCharIndex_frame
        updateCorrectChars_def cursorPosition_def)

lemma previousWord_frame:
  "words (previousWord s p) = words p"
  "correctChars (previousWord s p) = correctChars p"
  "settings (previousWord s p) = settings p"
  "testComplete (previousWord s p) = testComplete p"
  by (simp_all add: previousWord_def Let_def)

lemma removeMark_frame:
  "words (removeMark s p) = words p"
  "currentWordIndex (removeMark s p) = currentWordIndex p"
  "currentCharIndex (removeMark s p) = currentCharIndex p"
  "currentInput (removeMark s p) = currentInput p"
  "errorPosition (removeMark s p) = errorPosition p"
  "settings (removeMark s p) = settings p"
  "testComplete (removeMark s p) = testComplete p"
  by (simp_all add: removeMark_def Let_def)

lemma clearErrorPosition_frame:
  "words (clearErrorPosition s p) = words p"
  "currentWordIndex (clearErrorPosition s p) = currentWordIndex p"
  "currentCharIndex (clearErrorPosition s p) = currentCharIndex p"
  "currentInput (clearErrorPosition s p) = currentInput p"
  "correctChars (clearErrorPosition s p) = correctChars p"
  "settings (clearErrorPosition s p) = settings p"
  "testComplete (clearErrorPosition s p) = testComplete p"
  by (simp_all add: clearErrorPosition_def)

lemma onBackspace_frame:
  "words (onBackspace s p v) = words p"
  "settings (onBackspace s p v) = settings p"
  "testComplete (onBackspace s p v) = testComplete p"
  by (simp_all add: onBackspace_def Let_def previousWord_frame removeMark_frame
        clearErrorPosition_frame)

lemma onBackspace_wordIndex:
  "currentWordIndex (onBackspace s p v) =
     (if currentCharIndex s = 0 \<and> currentWordIndex s > 0
         \<and> words s ! (currentWordIndex s - 1) \<noteq> []
      then currentWordIndex s - 1 else currentWordIndex p)"
  by (simp add: onBackspace_def Let_def previousWord_def removeMark_frame
        clearErrorPosition_frame)

lemma onBackspace_charIndex:
  "currentCharIndex (onBackspace s p v) =
     (if currentCharIndex s = 0 \<and> currentWordIndex s > 0
      then (if words s ! (currentWordIndex s - 1) = [] then currentCharIndex p
            else length (words s ! (currentWordIndex s - 1)))
      else if currentCharIndex s > 0 then currentCharIndex s - 1
      else currentCharIndex p)"
  by (simp add: onBackspace_def Let_def previousWord_def removeMark_frame
        clearErrorPosition_frame)

lemma onBackspace_correctChars:
  "correctChars (onBackspace s p v) =
     (if currentCharIndex s > 0 \<and> currentWordIndex s < length (charOffsets (words s))
         \<and> cursorPosition s - 1 < length (correctChars s)
      then (correctChars s)[cursorPosition s - 1 := False]
      else correctChars p)"
  by (simp add: onBackspace_def Let_def previousWord_frame removeMark_def
        clearErrorPosition_frame cursorPosition_def)

lemma handleInputChange_frame:
  "words (handleInputChange now s v) = words s"
  "settings (handleInputChange now s v) = settings s"
  by (simp_all add: handleInputChange_def Let_def onCharTyped_frame onBackspace_frame)

lemma tick_cursor:
  "words (tick c now p) = words p"
  "currentWordIndex (tick c now p) = currentWordIndex p"
  "currentCharIndex (tick c now p) = currentCharIndex p"
  "correctChars (tick c now p) = correctChars p"
  by (simp_all add: tick_def Let_def endTest_frame)

subsection \<open>The offset table\<close>

lemma offsets_loop_running: "offsets_loop ws t offs = offs @ running t ws"
  by (induction ws arbitrary: t offs) simp_all

lemma length_running: "length (running t ws) = length ws"
  by (induction ws arbitrary: t) simp_all

lemma nth_running:
  "i \<le> length ws \<Longrightarrow> (t # running t ws) ! i = t + sum_list (map length (take i ws)) + i"
proof (induction ws arbitrary: t i)
  case Nil
  then show ?case by simp
next
  case (Cons w ws)
  show ?case
  proof (cases i)
    case 0
    then show ?thesis by simp
  next
    case (Suc j)
    with Cons.prems have "j \<le> length ws" by simp
    from Cons.IH [OF this, of "t + (length w + 1)"] Suc show ?thesis by simp
  qed
qed

lemma charOffsets_running: "charOffsets ws = 0 # running 0 (butlast ws)"
  by (simp add: charOffsets_def offsets_loop_running)

lemma length_charOffsets: "length (charOffsets ws) = max 1 (length ws)"
  by (cases ws) (simp_all add: charOffsets_running length_running)

lemma nth_charOffsets:
  assumes "i < length (charOffsets ws)"
  shows "charOffsets ws ! i = sum_list (map length (take i ws)) + i"
proof -
  from assms have le: "i \<le> length (butlast ws)"
    by (simp add: charOffsets_running length_running)
  then have "i \<le> length ws - 1" by simp
  then have "take i (butlast ws) = take i ws"
    by (simp add: butlast_conv_take min_absorb1)
  with nth_running [OF le, of 0] show ?thesis
    by (simp add: charOffsets_running)
qed

text \<open>
  C8. For every word sequence the offset table starts with 0, each next entry is the
  previous one plus the length of the previous word plus one separator, and so each
  entry is the sum of the lengths of all preceding words plus their number. The table
  has one entry per word (and the single entry 0 for the empty sequence).
\<close>

theorem charOffsets_table:
  "charOffsets ws ! 0 = 0
   \<and> (\<forall>i. i + 1 < length (charOffsets ws) \<longrightarrow>
         charOffsets ws ! (i + 1) = charOffsets ws ! i + length (ws ! i) + 1)
   \<and> (\<forall>i. i < length (charOffsets ws) \<longrightarrow>
         charOffsets ws ! i = sum_list (map length (take i ws)) + i)
   \<and> length (charOffsets ws) = max 1 (length ws)"
proof (intro conjI allI impI)
  show "charOffsets ws ! 0 = 0"
    by (simp add: charOffsets_running)
next
  fix i
  assume step: "i + 1 < length (charOffsets ws)"
  then have i_ws: "i < length ws"
    by (simp add: length_charOffsets)
  from step have "i < length (charOffsets ws)" by simp
  with step i_ws show "charOffsets ws ! (i + 1) = charOffsets ws ! i + length (ws ! i) + 1"
    by (simp add: nth_charOffsets take_Suc_conv_app_nth)
next
  fix i
  assume "i < length (charOffsets ws)"
  then show "charOffsets ws ! i = sum_list (map length (take i ws)) + i"
    by (rule nth_charOffsets)
next
  show "length (charOffsets ws) = max 1 (length ws)"
    by (rule length_charOffsets)
qed

theorem charOffsets_table_witness:
  "charOffsets [''the'', ''cat'', ''sat''] = [0, 4, 8]
   \<and> (0::nat) + 1 < length (charOffsets [''the'', ''cat'', ''sat''])
   \<and> charOffsets [''the'', ''cat'', ''sat''] ! (0 + 1)
       = charOffsets [''the'', ''cat'', ''sat''] ! 0 + length ([''the'', ''cat'', ''sat''] ! 0) + 1
   \<and> (2::nat) < length (charOffsets [''the'', ''cat'', ''sat''])
   \<and> charOffsets [''the'', ''cat'', ''sat''] ! 2
       = sum_list (map length (take 2 [''the'', ''cat'', ''sat''])) + 2"
  using charOffsets_table [of "[''the'', ''cat'', ''sat'']"]
  by (simp add: charOffsets_def)

subsection \<open>The cursor invariant\<close>

lemma handleInputChange_wordIndex:
  "currentWordIndex (handleInputChange now s v) =
     (if testComplete s \<or> \<not> hasCurrentWord s then currentWordIndex s
      else if length (currentInput s) < length v
      then (if last v = CHR '' '' \<and> separatorAccepted s then currentWordIndex s + 1
            else currentWordIndex s)
      else if length v < length (currentInput s)
      then (if currentCharIndex s = 0 \<and> currentWordIndex s > 0
               \<and> words s ! (currentWordIndex s - 1) \<noteq> []
            then currentWordIndex s - 1 else currentWordIndex s)
      else currentWordIndex s)"
  by (simp add: handleInputChange_def Let_def onCharTyped_wordIndex onBackspace_wordIndex)

lemma handleInputChange_charIndex:
  "currentCharIndex (handleInputChange now s v) =
     (if testComplete s \<or> \<not> hasCurrentWord s then currentCharIndex s
      else if length (currentInput s) < length v
      then (if last v = CHR '' '' \<and> separatorAccepted s then 0
            else if accuracyMode (settings s) = Strict \<and> expectedChar s \<noteq> Some (last v)
            then currentCharIndex s
            else currentCharIndex s + 1)
      else if length v < length (currentInput s)
      then (if currentCharIndex s = 0 \<and> currentWordIndex s > 0
            then (if words s ! (currentWordIndex s - 1) = [] then currentCharIndex s
                  else length (words s ! (currentWordIndex s - 1)))
            else currentCharIndex s - 1)
      else currentCharIndex s)"
  by (simp add: handleInputChange_def Let_def onCharTyped_charIndex onBackspace_charIndex)

lemma handleInputChange_correctChars:
  "correctChars (handleInputChange now s v) =
     (if testComplete s \<or> \<not> hasCurrentWord s then correctChars s
      else if length (currentInput s) < length v
      then (if currentWordIndex s < length (charOffsets (words s))
               \<and> currentCharIndex s < length (currentWord s)
            then js_set (correctChars s) (cursorPosition s) (expectedChar s = Some (last v))
            else correctChars s)
      else if length v < length (currentInput s)
      then (if currentCharIndex s > 0 \<and> currentWordIndex s < length (charOffsets (words s))
               \<and> cursorPosition s - 1 < length (correctChars s)
            then (correctChars s)[cursorPosition s - 1 := False]
            else correctChars s)
      else correctChars s)"
  by (simp add: handleInputChange_def Let_def onCharTyped_correctChars onBackspace_correctChars)

lemma expected_in_word:
  "expectedChar s = Some c \<Longrightarrow> currentCharIndex s < length (words s ! currentWordIndex s)"
  by (simp add: expectedChar_def currentWord_def split: if_splits)

lemma wordIndex_step: "wordIndex_ok s \<Longrightarrow> wordIndex_ok (handleInputChange now s v)"
  by (auto simp add: wordIndex_ok_def handleInputChange_wordIndex handleInputChange_frame
        hasCurrentWord_def Suc_le_eq)

lemma cursor_step_strict:
  assumes ok: "cursor_ok s" and strict: "accuracyMode (settings s) = Strict"
  shows "cursor_ok (handleInputChange now s v)"
proof (cases "testComplete s \<or> \<not> hasCurrentWord s")
  case True
  with ok show ?thesis
    by (simp add: cursor_ok_def handleInputChange_wordIndex handleInputChange_charIndex
          handleInputChange_frame)
next
  case False
  then have cur: "currentWordIndex s < length (words s)"
    by (simp add: hasCurrentWord_def)
  with ok have ci: "currentCharIndex s \<le> length (words s ! currentWordIndex s)"
    by (simp add: cursor_ok_def)
  show ?thesis
  proof (cases "length (currentInput s) < length v")
    case True
    with False cur ci strict show ?thesis
      by (auto simp add: cursor_ok_def handleInputChange_wordIndex
            handleInputChange_charIndex handleInputChange_frame
            dest: expected_in_word)
  next
    case False
    with \<open>\<not> (testComplete s \<or> \<not> hasCurrentWord s)\<close> cur ci show ?thesis
      by (auto simp add: cursor_ok_def handleInputChange_wordIndex
            handleInputChange_charIndex handleInputChange_frame)
  qed
qed

lemma cursor_reset: "cursor_ok (resetTest shuffled p)"
  by (simp add: cursor_ok_def resetTest_def Let_def)

lemma cursor_tick: "cursor_ok p \<Longrightarrow> cursor_ok (tick c now p)"
  by (simp add: cursor_ok_def tick_cursor)

lemma wordIndex_tick: "wordIndex_ok p \<Longrightarrow> wordIndex_ok (tick c now p)"
  by (simp add: wordIndex_ok_def tick_cursor)

lemma cursor_step_relaxed:
  assumes ok: "cursor_ok s" and relaxed: "accuracyMode (settings s) = Relaxed"
      and inside: "\<not> typesPastWordEnd s v"
  shows "cursor_ok (handleInputChange now s v)"
proof (cases "testComplete s \<or> \<not> hasCurrentWord s")
  case True
  with ok show ?thesis
    by (simp add: cursor_ok_def handleInputChange_wordIndex handleInputChange_charIndex
          handleInputChange_frame)
next
  case False
  then have cur: "currentWordIndex s < length (words s)"
    by (simp add: hasCurrentWord_def)
  with ok have ci: "currentCharIndex s \<le> length (words s ! currentWordIndex s)"
    by (simp add: cursor_ok_def)
  show ?thesis
  proof (cases "length (currentInput s) < length v")
    case True
    with False cur ci relaxed inside show ?thesis
      by (auto simp add: cursor_ok_def handleInputChange_wordIndex
            handleInputChange_charIndex handleInputChange_frame typesPastWordEnd_def
            currentWord_def separatorAccepted_def Suc_le_eq)
  next
    case False
    with \<open>\<not> (testComplete s \<or> \<not> hasCurrentWord s)\<close> cur ci show ?thesis
      by (auto simp add: cursor_ok_def handleInputChange_wordIndex
            handleInputChange_charIndex handleInputChange_frame)
  qed
qed

lemma cursor_step:
  assumes "cursor_ok s" and "\<not> typesPastWordEnd s v"
  shows "cursor_ok (handleInputChange now s v)"
proof (cases "accuracyMode (settings s)")
  case Strict
  with assms(1) show ?thesis by (rule cursor_step_strict)
next
  case Relaxed
  with assms show ?thesis by (simp add: cursor_step_relaxed)
qed

lemma cursor_overshoot:
  assumes "typesPastWordEnd s v"
  shows "currentWordIndex (handleInputChange now s v) = currentWordIndex s"
    and "currentCharIndex (handleInputChange now s v) = length (currentWord s) + 1"
    and "\<not> cursor_ok (handleInputChange now s v)"
  using assms
  by (simp_all add: typesPastWordEnd_def handleInputChange_wordIndex
        handleInputChange_charIndex handleInputChange_frame cursor_ok_def hasCurrentWord_def
        currentWord_def)

text \<open>
  C2 (as amended). After a reset, an input change or a timer tick the word index stays
  within \<open>0 .. length words\<close>. The character index stays within the current word under
  the reset, the timer tick and every input change under either policy (a character, a
  separator or a backspace), with one exception: under the relaxed policy a character
  other than the separator, typed with the cursor at the end of the current word, moves
  the character index one past the length of the word.
\<close>

theorem cursor_invariant:
  "(wordIndex_ok s \<longrightarrow> wordIndex_ok (handleInputChange now s v))
   \<and> (cursor_ok s \<and> accuracyMode (settings s) = Strict \<longrightarrow>
         cursor_ok (handleInputChange now s v))
   \<and> cursor_ok (resetTest shuffled p)
   \<and> (wordIndex_ok p \<longrightarrow> wordIndex_ok (tick c now p))
   \<and> (cursor_ok p \<longrightarrow> cursor_ok (tick c now p))
   \<and> (cursor_ok s \<and> \<not> typesPastWordEnd s v \<longrightarrow> cursor_ok (handleInputChange now s v))
   \<and> (typesPastWordEnd s v \<longrightarrow>
         currentWordIndex (handleInputChange now s v) = currentWordIndex s
         \<and> currentCharIndex (handleInputChange now s v) = length (currentWord s) + 1
         \<and> \<not> cursor_ok (handleInputChange now s v))"
  by (simp add: wordIndex_step cursor_step_strict cursor_reset wordIndex_tick cursor_tick
        cursor_step cursor_overshoot)

theorem cursor_invariant_witness:
  "wordIndex_ok (freshSession Relaxed Time [''ab''])
   \<and> wordIndex_ok (handleInputChange 0 (freshSession Relaxed Time [''ab'']) ''a'')
   \<and> cursor_ok (typeKeys 0 (freshSession Strict Time [''ab'', ''cd'']) ''ab'')
   \<and> accuracyMode (settings (typeKeys 0 (freshSession Strict Time [''ab'', ''cd'']) ''ab'')) = Strict
   \<and> cursor_ok (handleInputChange 0 (typeKeys 0 (freshSession Strict Time [''ab'', ''cd'']) ''ab'') ''abx'')
   \<and> currentCharIndex (handleInputChange 0 (typeKeys 0 (freshSession Strict Time [''ab'', ''cd'']) ''ab'') ''abx'') = 2
   \<and> cursor_ok (tick (freshSession Relaxed Time [''ab'']) 100 (freshSession Relaxed Time [''ab'']))
   \<and> cursor_ok (freshSession Relaxed Time [''ab''])
   \<and> \<not> typesPastWordEnd (freshSession Relaxed Time [''ab'']) ''x''
   \<and> cursor_ok (handleInputChange 0 (freshSession Relaxed Time [''ab'']) ''x'')
   \<and> typesPastWordEnd (typeKeys 0 (freshSession Relaxed Time [''ab'']) ''ab'') ''abc''
   \<and> currentCharIndex
        (handleInputChange 0 (typeKeys 0 (freshSession Relaxed Time [''ab'']) ''ab'') ''abc'')
       = length (currentWord (typeKeys 0 (freshSession Relaxed Time [''ab'']) ''ab'')) + 1"
proof -
  have f: "\<not> typesPastWordEnd (freshSession Relaxed Time [''ab'']) ''x''" by code_simp
  have g: "typesPastWordEnd (typeKeys 0 (freshSession Relaxed Time [''ab'']) ''ab'') ''abc''"
    by code_simp
  have a: "wordIndex_ok (freshSession Relaxed Time [''ab''])" by code_simp
  have b: "cursor_ok (typeKeys 0 (freshSession Strict Time [''ab'', ''cd'']) ''ab'')" by code_simp
  have c: "accuracyMode (settings (typeKeys 0 (freshSession Strict Time [''ab'', ''cd'']) ''ab'')) = Strict"
    by code_simp
  have d: "currentCharIndex (handleInputChange 0 (typeKeys 0 (freshSession Strict Time [''ab'', ''cd'']) ''ab'') ''abx'') = 2"
    by code_simp
  have e: "cursor_ok (freshSession Relaxed Time [''ab''])" by code_simp
  from a b c d e f g
    cursor_invariant [of "freshSession Relaxed Time [''ab'']" 0 "''x''" "[]" "freshSession Relaxed Time [''ab'']"
      "freshSession Relaxed Time [''ab'']"]
    cursor_invariant [of "typeKeys 0 (freshSession Relaxed Time [''ab'']) ''ab''" 0 "''abc''" "[]"
      "freshSession Relaxed Time [''ab'']" "freshSession Relaxed Time [''ab'']"]
    cursor_invariant [of "freshSession Relaxed Time [''ab'']" 0 "''a''" "[]" "freshSession Relaxed Time [''ab'']"
      "freshSession Relaxed Time [''ab'']"]
    cursor_invariant [of "typeKeys 0 (freshSession Strict Time [''ab'', ''cd'']) ''ab''" 0 "''abx''" "[]"
      "freshSession Relaxed Time [''ab'']" "freshSession Relaxed Time [''ab'']"]
    cursor_invariant [of "freshSession Relaxed Time [''ab'']" 100 "''a''" "[]" "freshSession Relaxed Time [''ab'']"
      "freshSession Relaxed Time [''ab'']"]
  show ?thesis by blast
qed

text \<open>
  C2 (as stated) fails under the relaxed policy: with the cursor at the end of the word
  \<open>ab\<close>, typing \<open>c\<close> moves the character index to 3, past the length 2 of the word.
\<close>

theorem relaxed_overshoot_counterexample:
  "cursor_ok (typeKeys 0 (freshSession Relaxed Time [''ab'']) ''ab'')
   \<and> \<not> cursor_ok (typeChar 0 (typeKeys 0 (freshSession Relaxed Time [''ab'']) ''ab'') (CHR ''c''))"
  by code_simp

subsection \<open>Keystrokes under the two policies\<close>

lemma separatorAccepted_strict:
  "separatorAccepted s \<Longrightarrow> accuracyMode (settings s) = Strict \<Longrightarrow> expectedChar s = None"
  by (simp add: separatorAccepted_def expectedChar_def)

text \<open>
  C3. While a keystroke is processed (the session is not complete and the cursor is on a
  word), a typed character advances the character index by one under the strict policy
  exactly when it equals the expected character, and a mistyped character never moves
  the index forward there; under the relaxed policy every typed character other than
  the separator advances the index by one, whether it is correct or not.
\<close>

theorem char_keystroke_advance:
  assumes "\<not> testComplete s" and "hasCurrentWord s"
      and "length (currentInput s) < length v"
  shows "(accuracyMode (settings s) = Strict \<longrightarrow>
            (currentCharIndex (handleInputChange now s v) = currentCharIndex s + 1
               \<longleftrightarrow> expectedChar s = Some (last v)))
         \<and> (accuracyMode (settings s) = Strict \<and> expectedChar s \<noteq> Some (last v) \<longrightarrow>
              currentCharIndex (handleInputChange now s v) \<le> currentCharIndex s)
         \<and> (accuracyMode (settings s) = Relaxed \<and> last v \<noteq> CHR '' '' \<longrightarrow>
              currentCharIndex (handleInputChange now s v) = currentCharIndex s + 1)"
  using assms
  by (auto simp add: handleInputChange_charIndex dest: separatorAccepted_strict)

theorem char_keystroke_advance_witness:
  "\<not> testComplete (freshSession Strict Time [''ab''])
   \<and> hasCurrentWord (freshSession Strict Time [''ab''])
   \<and> length (currentInput (freshSession Strict Time [''ab''])) < length ''a''
   \<and> accuracyMode (settings (freshSession Strict Time [''ab''])) = Strict
   \<and> expectedChar (freshSession Strict Time [''ab'']) = Some (last ''a'')
   \<and> currentCharIndex (handleInputChange 0 (freshSession Strict Time [''ab'']) ''a'')
       = currentCharIndex (freshSession Strict Time [''ab'']) + 1
   \<and> expectedChar (freshSession Strict Time [''ab'']) \<noteq> Some (last ''x'')
   \<and> currentCharIndex (handleInputChange 0 (freshSession Strict Time [''ab'']) ''x'')
       \<le> currentCharIndex (freshSession Strict Time [''ab''])
   \<and> \<not> testComplete (freshSession Relaxed Time [''ab''])
   \<and> hasCurrentWord (freshSession Relaxed Time [''ab''])
   \<and> length (currentInput (freshSession Relaxed Time [''ab''])) < length ''x''
   \<and> accuracyMode (settings (freshSession Relaxed Time [''ab''])) = Relaxed
   \<and> last ''x'' \<noteq> CHR '' ''
   \<and> currentCharIndex (handleInputChange 0 (freshSession Relaxed Time [''ab'']) ''x'')
       = currentCharIndex (freshSession Relaxed Time [''ab'']) + 1"
proof -
  have h1: "\<not> testComplete (freshSession Strict Time [''ab''])" by code_simp
  have h2: "hasCurrentWord (freshSession Strict Time [''ab''])" by code_simp
  have h3: "length (currentInput (freshSession Strict Time [''ab''])) < length ''a''" by code_simp
  have h3x: "length (currentInput (freshSession Strict Time [''ab''])) < length ''x''" by code_simp
  have h4: "accuracyMode (settings (freshSession Strict Time [''ab''])) = Strict" by code_simp
  have h5: "expectedChar (freshSession Strict Time [''ab'']) = Some (last ''a'')" by code_simp
  have h6: "expectedChar (freshSession Strict Time [''ab'']) \<noteq> Some (last ''x'')" by code_simp
  have r1: "\<not> testComplete (freshSession Relaxed Time [''ab''])" by code_simp
  have r2: "hasCurrentWord (freshSession Relaxed Time [''ab''])" by code_simp
  have r3: "length (currentInput (freshSession Relaxed Time [''ab''])) < length ''x''"
    by code_simp
  have r4: "accuracyMode (settings (freshSession Relaxed Time [''ab''])) = Relaxed" by code_simp
  have r5: "last ''x'' \<noteq> CHR '' ''" by simp
  from char_keystroke_advance [OF h1 h2 h3, of 0] h4 h5
  have c1: "currentCharIndex (handleInputChange 0 (freshSession Strict Time [''ab'']) ''a'')
       = currentCharIndex (freshSession Strict Time [''ab'']) + 1"
    by blast
  from char_keystroke_advance [OF h1 h2 h3x, of 0] h4 h6
  have c2: "currentCharIndex (handleInputChange 0 (freshSession Strict Time [''ab'']) ''x'')
       \<le> currentCharIndex (freshSession Strict Time [''ab''])"
    by blast
  from char_keystroke_advance [OF r1 r2 r3, of 0] r4 r5
  have c3: "currentCharIndex (handleInputChange 0 (freshSession Relaxed Time [''ab'']) ''x'')
       = currentCharIndex (freshSession Relaxed Time [''ab'']) + 1"
    by blast
  from h1 h2 h3 h4 h5 h6 r1 r2 r3 r4 r5 c1 c2 c3 show ?thesis by blast
qed

lemma errorPosition_only_cleared:
  "errorPosition (handleInputChange now s v) = None
   \<or> errorPosition (handleInputChange now s v) = errorPosition s"
  by (simp add: handleInputChange_def Let_def onCharTyped_def onBackspace_def checkSpace_def
        nextWord_frame incrementCharIndex_frame updateCorrectChars_frame previousWord_def
        clearErrorPosition_def removeMark_frame)

text \<open>
  C4 on the code. Under the strict policy a mistyped character leaves the error marker
  unset, both inside a word (\<open>x\<close> for \<open>a\<close>) and at its end (\<open>x\<close> after \<open>ab\<close>);
  the separator typed right after the second mistake moves on to the next word.
\<close>

theorem strict_mistype_scenario:
  "errorPosition (typeKeys 0 (freshSession Strict Time [''ab'', ''cd'']) ''x'') = None
   \<and> correctChars (typeKeys 0 (freshSession Strict Time [''ab'', ''cd'']) ''x'')
       = [False, False, False, False, False]
   \<and> currentCharIndex (typeKeys 0 (freshSession Strict Time [''ab'', ''cd'']) ''x'') = 0
   \<and> errorPosition (typeKeys 0 (freshSession Strict Time [''ab'', ''cd'']) ''abx'') = None
   \<and> currentInput (typeKeys 0 (freshSession Strict Time [''ab'', ''cd'']) ''abx'') = ''abx''
   \<and> currentWordIndex (typeKeys 0 (freshSession Strict Time [''ab'', ''cd'']) ''abx'') = 0
   \<and> currentCharIndex (typeKeys 0 (freshSession Strict Time [''ab'', ''cd'']) ''abx'') = 2
   \<and> currentWordIndex (typeKeys 0 (freshSession Strict Time [''ab'', ''cd'']) ''abx '') = 1
   \<and> currentCharIndex (typeKeys 0 (freshSession Strict Time [''ab'', ''cd'']) ''abx '') = 0"
  by code_simp

text \<open>
  C1 on the code. Strict policy, words \<open>the cat\<close>, typed without a mistake. Before the
  final separator the completed count is \<open>4 + 3 = 7\<close>, but only the six letters are
  marked in the bitmap: the entry of the separator after \<open>the\<close> stays false. The final
  separator completes the session at word index 2 with these figures: accuracy 86,
  seven characters of which six count as correct and one as incorrect. In the completed
  state the correct count is still 6.
\<close>

theorem perfect_two_words_scenario:
  "getCompletedCharCount (typeKeys 0 (freshSession Strict Time [''the'', ''cat'']) ''the cat'') = 7
   \<and> getCorrectCharCount (typeKeys 0 (freshSession Strict Time [''the'', ''cat'']) ''the cat'') = 6
   \<and> calculateAccuracy (typeKeys 0 (freshSession Strict Time [''the'', ''cat'']) ''the cat'') = 86
   \<and> correctChars (typeKeys 0 (freshSession Strict Time [''the'', ''cat'']) ''the cat '')
       = [True, True, True, False, True, True, True]
   \<and> currentWordIndex (typeKeys 0 (freshSession Strict Time [''the'', ''cat'']) ''the cat '') = 2
   \<and> testComplete (typeKeys 0 (freshSession Strict Time [''the'', ''cat'']) ''the cat '')
   \<and> getCorrectCharCount (typeKeys 0 (freshSession Strict Time [''the'', ''cat'']) ''the cat '') = 6
   \<and> currentAccuracy (typeKeys 0 (freshSession Strict Time [''the'', ''cat'']) ''the cat '') = 86
   \<and> stats_totalChars (stats (typeKeys 0 (freshSession Strict Time [''the'', ''cat'']) ''the cat '')) = 7
   \<and> stats_correctChars (stats (typeKeys 0 (freshSession Strict Time [''the'', ''cat'']) ''the cat '')) = 6
   \<and> stats_incorrectChars (stats (typeKeys 0 (freshSession Strict Time [''the'', ''cat'']) ''the cat '')) = 1"
  by code_simp

subsection \<open>A keystroke followed by a backspace\<close>

lemma length_joinWords: "length (joinWords ws) = sum_list (map length ws) + (length ws - 1)"
  by (induction ws rule: joinWords.induct) simp_all

lemma sum_take_le: "sum_list (map length (take n ws)) + sum_list (map length (drop n ws))
    = sum_list (map length (ws :: string list))"
  by (metis append_take_drop_id map_append sum_list_append)

lemma word_in_bitmap:
  assumes "i < length ws"
  shows "charOffsets ws ! i + length (ws ! i) \<le> length (joinWords ws)"
proof -
  from assms have "i < length (charOffsets ws)"
    by (simp add: length_charOffsets)
  then have off: "charOffsets ws ! i = sum_list (map length (take i ws)) + i"
    by (rule nth_charOffsets)
  from assms have "drop i ws = ws ! i # drop (Suc i) ws"
    by (simp add: Cons_nth_drop_Suc)
  then have "length (ws ! i) \<le> sum_list (map length (drop i ws))"
    by simp
  with sum_take_le [of i ws]
  have "sum_list (map length (take i ws)) + length (ws ! i) \<le> sum_list (map length ws)"
    by linarith
  with off assms show ?thesis
    by (simp add: length_joinWords)
qed

lemma cursor_in_bitmap:
  assumes "bitmap_sized s" and "currentWordIndex s < length (words s)"
      and "currentCharIndex s < length (currentWord s)"
  shows "cursorPosition s < length (correctChars s)"
  using assms word_in_bitmap [of "currentWordIndex s" "words s"]
  by (simp add: bitmap_sized_def cursorPosition_def currentWord_def)

lemma onCharTyped_plain:
  assumes "last v \<noteq> CHR '' ''"
  shows "testComplete (onCharTyped s p v) = testComplete p"
    and "currentInput (onCharTyped s p v) = v"
  using assms
  by (simp_all add: onCharTyped_def Let_def incrementCharIndex_frame updateCorrectChars_frame)

lemma typeChar_plain:
  assumes "\<not> testComplete s" and "hasCurrentWord s" and "c \<noteq> CHR '' ''"
  shows "testComplete (typeChar now s c) = False"
    and "currentInput (typeChar now s c) = currentInput s @ [c]"
    and "words (typeChar now s c) = words s"
    and "currentWordIndex (typeChar now s c) = currentWordIndex s"
    and "currentCharIndex (typeChar now s c) =
           (if accuracyMode (settings s) = Strict \<and> expectedChar s \<noteq> Some c
            then currentCharIndex s else currentCharIndex s + 1)"
    and "correctChars (typeChar now s c) =
           (if currentCharIndex s < length (currentWord s)
            then js_set (correctChars s) (cursorPosition s) (expectedChar s = Some c)
            else correctChars s)"
proof -
  from assms show "testComplete (typeChar now s c) = False"
    by (simp add: typeChar_def handleInputChange_def Let_def onCharTyped_plain)
  from assms show "currentInput (typeChar now s c) = currentInput s @ [c]"
    by (simp add: typeChar_def handleInputChange_def Let_def onCharTyped_plain)
  show "words (typeChar now s c) = words s"
    by (simp add: typeChar_def handleInputChange_frame)
  from assms show "currentWordIndex (typeChar now s c) = currentWordIndex s"
    by (simp add: typeChar_def handleInputChange_wordIndex)
  from assms show "currentCharIndex (typeChar now s c) =
           (if accuracyMode (settings s) = Strict \<and> expectedChar s \<noteq> Some c
            then currentCharIndex s else currentCharIndex s + 1)"
    by (simp add: typeChar_def handleInputChange_charIndex)
  from assms have "currentWordIndex s < length (charOffsets (words s))"
    by (simp add: hasCurrentWord_def length_charOffsets)
  with assms show "correctChars (typeChar now s c) =
           (if currentCharIndex s < length (currentWord s)
            then js_set (correctChars s) (cursorPosition s) (expectedChar s = Some c)
            else correctChars s)"
    by (simp add: typeChar_def handleInputChange_correctChars)
qed

lemma pressBackspace_inside:
  assumes "\<not> testComplete s" and "hasCurrentWord s" and "currentInput s \<noteq> []"
      and "currentCharIndex s > 0"
  shows "currentWordIndex (pressBackspace now s) = currentWordIndex s"
    and "currentCharIndex (pressBackspace now s) = currentCharIndex s - 1"
    and "correctChars (pressBackspace now s) =
           (if cursorPosition s - 1 < length (correctChars s)
            then (correctChars s)[cursorPosition s - 1 := False] else correctChars s)"
proof -
  from assms have shorter: "length (butlast (currentInput s)) < length (currentInput s)"
      "\<not> length (currentInput s) < length (butlast (currentInput s))"
    by simp_all
  from assms have off: "currentWordIndex s < length (charOffsets (words s))"
    by (simp add: hasCurrentWord_def length_charOffsets)
  from assms shorter show "currentWordIndex (pressBackspace now s) = currentWordIndex s"
    by (simp add: pressBackspace_def handleInputChange_wordIndex)
  from assms shorter show "currentCharIndex (pressBackspace now s) = currentCharIndex s - 1"
    by (simp add: pressBackspace_def handleInputChange_charIndex)
  from assms shorter off show "correctChars (pressBackspace now s) =
           (if cursorPosition s - 1 < length (correctChars s)
            then (correctChars s)[cursorPosition s - 1 := False] else correctChars s)"
    by (simp add: pressBackspace_def handleInputChange_correctChars)
qed

text \<open>
  The keystrokes that advance the cursor do round-trip. In a session that is not
  complete, with the cursor on a word and the bitmap sized for the words: a character
  other than the separator that advances the character index (any such character under
  the relaxed policy, the expected one under the strict policy), followed at once by a
  backspace, leaves the cursor where it was before the keystroke. The bitmap is then the
  earlier one with the entry at the cursor's position reset to false, so it is exactly
  the earlier bitmap whenever that entry was false before the keystroke.
\<close>

lemma keystroke_backspace_roundtrip:
  assumes live: "\<not> testComplete s" "hasCurrentWord s"
      and sized: "bitmap_sized s"
      and plain: "c \<noteq> CHR '' ''"
      and adv: "accuracyMode (settings s) = Relaxed \<or> expectedChar s = Some c"
  shows "currentWordIndex (pressBackspace now' (typeChar now s c)) = currentWordIndex s
         \<and> currentCharIndex (pressBackspace now' (typeChar now s c)) = currentCharIndex s
         \<and> correctChars (pressBackspace now' (typeChar now s c))
             = (correctChars s)[cursorPosition s := False]
         \<and> ((cursorPosition s < length (correctChars s) \<longrightarrow>
                \<not> correctChars s ! cursorPosition s) \<longrightarrow>
              correctChars (pressBackspace now' (typeChar now s c)) = correctChars s)"
proof -
  let ?s1 = "typeChar now s c"
  note t = typeChar_plain [OF live plain, of now]
  from adv have ci1: "currentCharIndex ?s1 = currentCharIndex s + 1"
    by (auto simp add: t)
  have live1: "\<not> testComplete ?s1" "hasCurrentWord ?s1" "currentInput ?s1 \<noteq> []"
    "currentCharIndex ?s1 > 0"
    using live ci1 by (simp_all add: t(1,2,3,4) hasCurrentWord_def)
  note b = pressBackspace_inside [OF live1, of now']
  have pos1: "cursorPosition ?s1 - Suc 0 = cursorPosition s"
    by (simp add: cursorPosition_def t(3,4) ci1)
  have bitmap: "correctChars (pressBackspace now' ?s1) = (correctChars s)[cursorPosition s := False]"
  proof (cases "currentCharIndex s < length (currentWord s)")
    case True
    with sized live have "cursorPosition s < length (correctChars s)"
      by (simp add: cursor_in_bitmap hasCurrentWord_def)
    with True show ?thesis
      by (simp add: b(3) pos1 t(6) js_set_def)
  next
    case False
    then show ?thesis
      by (simp add: b(3) pos1 t(6) list_update_beyond not_less)
  qed
  have same: "correctChars (pressBackspace now' ?s1) = correctChars s"
    if "cursorPosition s < length (correctChars s) \<longrightarrow> \<not> correctChars s ! cursorPosition s"
  proof (cases "cursorPosition s < length (correctChars s)")
    case True
    with that have "correctChars s ! cursorPosition s = False" by simp
    then have "(correctChars s)[cursorPosition s := False] = correctChars s"
      using list_update_id [of "correctChars s" "cursorPosition s"] by simp
    with bitmap show ?thesis by simp
  next
    case False
    with bitmap show ?thesis by (simp add: list_update_beyond not_less)
  qed
  from b(1) b(2) bitmap same show ?thesis
    by (simp add: t(4) ci1)
qed

lemma keystroke_backspace_roundtrip_example:
  "\<not> testComplete (typeKeys 0 (freshSession Relaxed Time [''ab'', ''cd'']) ''a'')
   \<and> hasCurrentWord (typeKeys 0 (freshSession Relaxed Time [''ab'', ''cd'']) ''a'')
   \<and> bitmap_sized (typeKeys 0 (freshSession Relaxed Time [''ab'', ''cd'']) ''a'')
   \<and> accuracyMode (settings (typeKeys 0 (freshSession Relaxed Time [''ab'', ''cd'']) ''a'')) = Relaxed
   \<and> cursorPosition (typeKeys 0 (freshSession Relaxed Time [''ab'', ''cd'']) ''a'') = 1
   \<and> correctChars (typeKeys 0 (freshSession Relaxed Time [''ab'', ''cd'']) ''a'')
       = [True, False, False, False, False]
   \<and> currentCharIndex (pressBackspace 2
        (typeChar 1 (typeKeys 0 (freshSession Relaxed Time [''ab'', ''cd'']) ''a'') (CHR ''x''))) = 1
   \<and> correctChars (pressBackspace 2
        (typeChar 1 (typeKeys 0 (freshSession Relaxed Time [''ab'', ''cd'']) ''a'') (CHR ''x'')))
       = [True, False, False, False, False]"
proof -
  let ?s = "typeKeys 0 (freshSession Relaxed Time [''ab'', ''cd'']) ''a''"
  have h1: "\<not> testComplete ?s" by code_simp
  have h2: "hasCurrentWord ?s" by code_simp
  have h3: "bitmap_sized ?s" by code_simp
  have h4: "CHR ''x'' \<noteq> CHR '' ''" by simp
  have h5: "accuracyMode (settings ?s) = Relaxed" by code_simp
  have h6: "cursorPosition ?s = 1" by code_simp
  have h7: "correctChars ?s = [True, False, False, False, False]" by code_simp
  have h8: "currentCharIndex ?s = 1" by code_simp
  from keystroke_backspace_roundtrip [OF h1 h2 h3 h4 disjI1 [OF h5], of 2 1] h1 h2 h3 h5 h6 h7 h8
  show ?thesis by simp
qed

text \<open>
  C5 on the code. Strict policy, the word \<open>ab\<close>. After \<open>a\<close> the cursor is at character 1,
  the field reads \<open>a\<close> and the bitmap is \<open>[True, False]\<close>. The mistyped \<open>x\<close> enters the
  field and leaves the cursor at 1. The backspace that deletes \<open>x\<close> moves the cursor back
  to 0 and removes the mark of \<open>a\<close>, although \<open>a\<close> is still in the field; the \<open>b\<close> typed
  next is then rejected.
\<close>

theorem strict_mistype_backspace_scenario:
  "currentCharIndex (typeKeys 0 (freshSession Strict Time [''ab'']) ''a'') = 1
   \<and> currentInput (typeKeys 0 (freshSession Strict Time [''ab'']) ''a'') = ''a''
   \<and> correctChars (typeKeys 0 (freshSession Strict Time [''ab'']) ''a'') = [True, False]
   \<and> currentCharIndex (typeKeys 0 (freshSession Strict Time [''ab'']) ''ax'') = 1
   \<and> currentInput (typeKeys 0 (freshSession Strict Time [''ab'']) ''ax'') = ''ax''
   \<and> currentWordIndex (pressBackspace 0 (typeKeys 0 (freshSession Strict Time [''ab'']) ''ax'')) = 0
   \<and> currentCharIndex (pressBackspace 0 (typeKeys 0 (freshSession Strict Time [''ab'']) ''ax'')) = 0
   \<and> currentInput (pressBackspace 0 (typeKeys 0 (freshSession Strict Time [''ab'']) ''ax'')) = ''a''
   \<and> correctChars (pressBackspace 0 (typeKeys 0 (freshSession Strict Time [''ab'']) ''ax''))
       = [False, False]
   \<and> currentCharIndex (pressBackspace 0 (typeKeys 0 (freshSession Strict Time [''ab'']) ''ax''))
       \<noteq> currentCharIndex (typeKeys 0 (freshSession Strict Time [''ab'']) ''a'')
   \<and> correctChars (pressBackspace 0 (typeKeys 0 (freshSession Strict Time [''ab'']) ''ax''))
       \<noteq> correctChars (typeKeys 0 (freshSession Strict Time [''ab'']) ''a'')
   \<and> currentCharIndex (typeChar 0
         (pressBackspace 0 (typeKeys 0 (freshSession Strict Time [''ab'']) ''ax'')) (CHR ''b'')) = 0"
  by code_simp

subsection \<open>What a keystroke writes to the bitmap\<close>

lemma js_set_nth_other:
  "q < length xs \<Longrightarrow> q \<noteq> i \<Longrightarrow> js_set xs i v ! q = xs ! q"
  by (simp add: js_set_def nth_append)

lemma js_set_length_inside: "i < length xs \<Longrightarrow> length (js_set xs i v) = length xs"
  by (simp add: js_set_def)

lemma bitmap_sized_step:
  assumes "bitmap_sized s"
  shows "bitmap_sized (handleInputChange now s v)"
proof (cases "\<not> testComplete s \<and> hasCurrentWord s \<and> length (currentInput s) < length v
               \<and> currentCharIndex s < length (currentWord s)")
  case True
  with assms have "cursorPosition s < length (correctChars s)"
    by (simp add: cursor_in_bitmap hasCurrentWord_def)
  with assms True show ?thesis
    by (simp add: bitmap_sized_def handleInputChange_correctChars handleInputChange_frame
          js_set_length_inside)
next
  case False
  with assms show ?thesis
    by (auto simp add: bitmap_sized_def handleInputChange_correctChars handleInputChange_frame)
qed

lemma typed_bitmap:
  assumes "\<not> testComplete s" and "hasCurrentWord s"
      and "length (currentInput s) < length v"
  shows "correctChars (handleInputChange now s v) =
           (if currentCharIndex s < length (currentWord s)
            then js_set (correctChars s) (cursorPosition s) (expectedChar s = Some (last v))
            else correctChars s)"
  using assms
  by (simp add: handleInputChange_correctChars hasCurrentWord_def length_charOffsets)

lemma typed_bitmap_sized:
  assumes "\<not> testComplete s" and "hasCurrentWord s" and "bitmap_sized s"
      and "length (currentInput s) < length v"
      and "currentCharIndex s < length (currentWord s)"
  shows "correctChars (handleInputChange now s v) =
           (correctChars s)[cursorPosition s := (expectedChar s = Some (last v))]"
proof -
  from assms have "cursorPosition s < length (correctChars s)"
    by (simp add: cursor_in_bitmap hasCurrentWord_def)
  with assms show ?thesis
    by (simp add: typed_bitmap js_set_def)
qed

lemma deleted_bitmap:
  assumes "\<not> testComplete s" and "hasCurrentWord s"
      and "length v < length (currentInput s)" and "0 < currentCharIndex s"
  shows "correctChars (handleInputChange now s v) =
           (if cursorPosition s - 1 < length (correctChars s)
            then (correctChars s)[cursorPosition s - 1 := False]
            else correctChars s)"
  using assms
  by (simp add: handleInputChange_correctChars hasCurrentWord_def length_charOffsets)

lemma deleted_position_inside:
  assumes "bitmap_sized s" and "hasCurrentWord s" and "0 < currentCharIndex s"
      and "currentCharIndex s \<le> length (currentWord s)"
  shows "cursorPosition s - 1 < length (correctChars s)"
proof -
  from assms(2) have "currentWordIndex s < length (words s)"
    by (simp add: hasCurrentWord_def)
  from word_in_bitmap [OF this] assms show ?thesis
    by (simp add: bitmap_sized_def cursorPosition_def currentWord_def)
qed

text \<open>
  C10 (as amended). An input change that types a character writes at most one bitmap
  entry: the one at the cursor's position \<open>offset[wordIndex] + charIndex\<close>, and only when
  the character index is inside the current word; it then holds whether the character
  was the expected one, and every other entry keeps its value. A backspace inside a
  word resets exactly one entry, the one just before the cursor, whenever that position
  lies inside the bitmap, as it always does while the character index is within the
  word; when the position lies outside, no entry is written. The length of the bitmap
  and every other entry stay as they were, and a bitmap sized for the words keeps its
  size under every input change.
\<close>

theorem bitmap_frame:
  "(length (currentInput s) < length v \<longrightarrow>
      (correctChars (handleInputChange now s v) = correctChars s
       \<or> (currentCharIndex s < length (currentWord s)
          \<and> correctChars (handleInputChange now s v)
              = js_set (correctChars s) (cursorPosition s) (expectedChar s = Some (last v))))
      \<and> (\<not> currentCharIndex s < length (currentWord s) \<longrightarrow>
            correctChars (handleInputChange now s v) = correctChars s)
      \<and> (\<forall>q. q < length (correctChars s) \<and> q \<noteq> cursorPosition s \<longrightarrow>
            correctChars (handleInputChange now s v) ! q = correctChars s ! q))
   \<and> (length v < length (currentInput s) \<longrightarrow>
      (correctChars (handleInputChange now s v) = correctChars s
       \<or> (0 < currentCharIndex s \<and> cursorPosition s - 1 < length (correctChars s)
          \<and> correctChars (handleInputChange now s v)
              = (correctChars s)[cursorPosition s - 1 := False]))
      \<and> length (correctChars (handleInputChange now s v)) = length (correctChars s)
      \<and> (\<forall>q. q \<noteq> cursorPosition s - 1 \<longrightarrow>
            correctChars (handleInputChange now s v) ! q = correctChars s ! q))
   \<and> (bitmap_sized s \<longrightarrow> bitmap_sized (handleInputChange now s v))
   \<and> (\<not> testComplete s \<and> hasCurrentWord s \<and> length (currentInput s) < length v \<longrightarrow>
        correctChars (handleInputChange now s v) =
          (if currentCharIndex s < length (currentWord s)
           then js_set (correctChars s) (cursorPosition s) (expectedChar s = Some (last v))
           else correctChars s))
   \<and> (\<not> testComplete s \<and> hasCurrentWord s \<and> bitmap_sized s
        \<and> length (currentInput s) < length v
        \<and> currentCharIndex s < length (currentWord s) \<longrightarrow>
        correctChars (handleInputChange now s v) =
          (correctChars s)[cursorPosition s := (expectedChar s = Some (last v))])
   \<and> (\<not> testComplete s \<and> hasCurrentWord s \<and> length v < length (currentInput s)
        \<and> 0 < currentCharIndex s \<longrightarrow>
        correctChars (handleInputChange now s v) =
          (if cursorPosition s - 1 < length (correctChars s)
           then (correctChars s)[cursorPosition s - 1 := False]
           else correctChars s))
   \<and> (bitmap_sized s \<and> hasCurrentWord s \<and> 0 < currentCharIndex s
        \<and> currentCharIndex s \<le> length (currentWord s) \<longrightarrow>
        cursorPosition s - 1 < length (correctChars s))"
proof (intro conjI impI allI)
  assume "length (currentInput s) < length v"
  then show "correctChars (handleInputChange now s v) = correctChars s
       \<or> (currentCharIndex s < length (currentWord s)
          \<and> correctChars (handleInputChange now s v)
              = js_set (correctChars s) (cursorPosition s) (expectedChar s = Some (last v)))"
    by (simp add: handleInputChange_correctChars)
next
  assume "length (currentInput s) < length v"
    and "\<not> currentCharIndex s < length (currentWord s)"
  then show "correctChars (handleInputChange now s v) = correctChars s"
    by (simp add: handleInputChange_correctChars)
next
  fix q
  assume "length (currentInput s) < length v"
    and "q < length (correctChars s) \<and> q \<noteq> cursorPosition s"
  then show "correctChars (handleInputChange now s v) ! q = correctChars s ! q"
    by (simp add: handleInputChange_correctChars js_set_nth_other)
next
  assume "length v < length (currentInput s)"
  then show "correctChars (handleInputChange now s v) = correctChars s
       \<or> (0 < currentCharIndex s \<and> cursorPosition s - 1 < length (correctChars s)
          \<and> correctChars (handleInputChange now s v)
              = (correctChars s)[cursorPosition s - 1 := False])"
    by (simp add: handleInputChange_correctChars)
next
  assume "length v < length (currentInput s)"
  then show "length (correctChars (handleInputChange now s v)) = length (correctChars s)"
    by (simp add: handleInputChange_correctChars)
next
  fix q
  assume "length v < length (currentInput s)" and "q \<noteq> cursorPosition s - 1"
  then show "correctChars (handleInputChange now s v) ! q = correctChars s ! q"
    by (simp add: handleInputChange_correctChars)
next
  assume "bitmap_sized s"
  then show "bitmap_sized (handleInputChange now s v)"
    by (rule bitmap_sized_step)
next
  assume "\<not> testComplete s \<and> hasCurrentWord s \<and> length (currentInput s) < length v"
  then show "correctChars (handleInputChange now s v) =
          (if currentCharIndex s < length (currentWord s)
           then js_set (correctChars s) (cursorPosition s) (expectedChar s = Some (last v))
           else correctChars s)"
    by (simp add: typed_bitmap)
next
  assume "\<not> testComplete s \<and> hasCurrentWord s \<and> bitmap_sized s
        \<and> length (currentInput s) < length v
        \<and> currentCharIndex s < length (currentWord s)"
  then show "correctChars (handleInputChange now s v) =
          (correctChars s)[cursorPosition s := (expectedChar s = Some (last v))]"
    by (simp add: typed_bitmap_sized)
next
  assume "\<not> testComplete s \<and> hasCurrentWord s \<and> length v < length (currentInput s)
        \<and> 0 < currentCharIndex s"
  then show "correctChars (handleInputChange now s v) =
          (if cursorPosition s - 1 < length (correctChars s)
           then (correctChars s)[cursorPosition s - 1 := False]
           else correctChars s)"
    by (simp add: deleted_bitmap)
next
  assume "bitmap_sized s \<and> hasCurrentWord s \<and> 0 < currentCharIndex s
        \<and> currentCharIndex s \<le> length (currentWord s)"
  then show "cursorPosition s - 1 < length (correctChars s)"
    using deleted_position_inside [of s] by simp
qed

theorem bitmap_frame_witness:
  "length (currentInput (typeKeys 0 (freshSession Relaxed Time [''ab'', ''cd'']) ''a'')) < length ''ab''
   \<and> correctChars (typeKeys 0 (freshSession Relaxed Time [''ab'', ''cd'']) ''a'')
       = [True, False, False, False, False]
   \<and> cursorPosition (typeKeys 0 (freshSession Relaxed Time [''ab'', ''cd'']) ''a'') = 1
   \<and> correctChars (handleInputChange 0
         (typeKeys 0 (freshSession Relaxed Time [''ab'', ''cd'']) ''a'') ''ab'')
       = [True, True, False, False, False]
   \<and> correctChars (handleInputChange 0
         (typeKeys 0 (freshSession Relaxed Time [''ab'', ''cd'']) ''a'') ''ab'') ! 0
       = correctChars (typeKeys 0 (freshSession Relaxed Time [''ab'', ''cd'']) ''a'') ! 0
   \<and> length [] < length (currentInput (typeKeys 0 (freshSession Relaxed Time [''ab'', ''cd'']) ''a''))
   \<and> length (correctChars (handleInputChange 0
         (typeKeys 0 (freshSession Relaxed Time [''ab'', ''cd'']) ''a'') []))
       = length (correctChars (typeKeys 0 (freshSession Relaxed Time [''ab'', ''cd'']) ''a''))
   \<and> bitmap_sized (typeKeys 0 (freshSession Relaxed Time [''ab'', ''cd'']) ''a'')
   \<and> bitmap_sized (handleInputChange 0
         (typeKeys 0 (freshSession Relaxed Time [''ab'', ''cd'']) ''a'') ''ab'')
   \<and> \<not> testComplete (typeKeys 0 (freshSession Relaxed Time [''ab'', ''cd'']) ''a'')
   \<and> hasCurrentWord (typeKeys 0 (freshSession Relaxed Time [''ab'', ''cd'']) ''a'')
   \<and> 0 < currentCharIndex (typeKeys 0 (freshSession Relaxed Time [''ab'', ''cd'']) ''a'')
   \<and> currentCharIndex (typeKeys 0 (freshSession Relaxed Time [''ab'', ''cd'']) ''a'')
       \<le> length (currentWord (typeKeys 0 (freshSession Relaxed Time [''ab'', ''cd'']) ''a''))
   \<and> correctChars (handleInputChange 0
         (typeKeys 0 (freshSession Relaxed Time [''ab'', ''cd'']) ''a'') [])
       = [False, False, False, False, False]"
proof -
  let ?s = "typeKeys 0 (freshSession Relaxed Time [''ab'', ''cd'']) ''a''"
  have h1: "length (currentInput ?s) < length ''ab''" by code_simp
  have h2: "correctChars ?s = [True, False, False, False, False]" by code_simp
  have h3: "cursorPosition ?s = 1" by code_simp
  have h4: "correctChars (handleInputChange 0 ?s ''ab'') = [True, True, False, False, False]"
    by code_simp
  have h5: "length [] < length (currentInput ?s)" by code_simp
  have h6: "bitmap_sized ?s" by code_simp
  from bitmap_frame [of ?s "''ab''" 0] h1 h2 h3
  have "correctChars (handleInputChange 0 ?s ''ab'') ! 0 = correctChars ?s ! 0"
    by simp
  moreover from bitmap_frame [of ?s "[]" 0] h5
  have "length (correctChars (handleInputChange 0 ?s [])) = length (correctChars ?s)"
    by blast
  moreover from bitmap_frame [of ?s "''ab''" 0] h6
  have "bitmap_sized (handleInputChange 0 ?s ''ab'')"
    by blast
  moreover have h7: "\<not> testComplete ?s" by code_simp
  moreover have h8: "hasCurrentWord ?s" by code_simp
  moreover have h9: "0 < currentCharIndex ?s" by code_simp
  moreover have h10: "currentCharIndex ?s \<le> length (currentWord ?s)" by code_simp
  moreover have "correctChars (handleInputChange 0 ?s []) = [False, False, False, False, False]"
  proof -
    from bitmap_frame [of ?s "[]" 0] h6 h8 h9 h10
    have inside: "cursorPosition ?s - 1 < length (correctChars ?s)"
      by blast
    from bitmap_frame [of ?s "[]" 0] h5 h7 h8 h9
    have "correctChars (handleInputChange 0 ?s []) =
          (if cursorPosition ?s - 1 < length (correctChars ?s)
           then (correctChars ?s)[cursorPosition ?s - 1 := False]
           else correctChars ?s)"
      by blast
    with inside h2 h3 show ?thesis by simp
  qed
  ultimately show ?thesis using h1 h2 h3 h4 h5 h6 by simp
qed

text \<open>
  C10 (as stated) fails for the backspace. Relaxed policy, the single word \<open>ab\<close>: after
  \<open>abc\<close> the character index is 3 and the bitmap \<open>[True, True]\<close>. The backspace steps
  back to 2; the position it would reset, 2, is outside the bitmap, and no entry is
  reset at all.
\<close>

theorem backspace_outside_bitmap_counterexample:
  "currentCharIndex (typeKeys 0 (freshSession Relaxed Time [''ab'']) ''abc'') = 3
   \<and> correctChars (typeKeys 0 (freshSession Relaxed Time [''ab'']) ''abc'') = [True, True]
   \<and> currentWordIndex (pressBackspace 0 (typeKeys 0 (freshSession Relaxed Time [''ab'']) ''abc'')) = 0
   \<and> currentCharIndex (pressBackspace 0 (typeKeys 0 (freshSession Relaxed Time [''ab'']) ''abc'')) = 2
   \<and> correctChars (pressBackspace 0 (typeKeys 0 (freshSession Relaxed Time [''ab'']) ''abc''))
       = [True, True]
   \<and> False \<notin> set (correctChars
         (pressBackspace 0 (typeKeys 0 (freshSession Relaxed Time [''ab'']) ''abc'')))"
  by code_simp

subsection \<open>Aggregate statistics\<close>

lemma js_round_half: "js_round (of_int n / 2) = (n + 1) div 2"
proof -
  have "(of_int n :: rat) / 2 + 1 / 2 = of_int (n + 1) / of_int 2"
    by (simp add: add_divide_distrib)
  then have "js_round (of_int n / 2) = \<lfloor>(of_int (n + 1) :: rat) / of_int 2\<rfloor>"
    by (simp only: js_round_def)
  also have "\<dots> = (n + 1) div 2"
    by (rule floor_divide_of_int_eq)
  finally show ?thesis .
qed

lemma num_max_Finite: "num_max (Finite a) (Finite b) = Finite (max a b)"
  by (simp add: num_max_def max_def)

lemma endTest_stats_eq:
  "stats (endTest s p) =
     \<lparr> stats_wpm = num_max (stats_wpm (stats s)) (sessionWpm s),
       stats_accuracy = js_round (of_int (stats_accuracy (stats s) + calculateAccuracy s) / 2),
       stats_correctChars = stats_correctChars (stats s) + int (getCorrectCharCount s),
       stats_incorrectChars = stats_incorrectChars (stats s)
          + (int (getCompletedCharCount s) - int (getCorrectCharCount s)),
       stats_totalChars = stats_totalChars (stats s) + int (getCompletedCharCount s),
       stats_completedTests = stats_completedTests (stats s) + 1 \<rparr>"
  by (simp add: endTest_def Let_def split: option.splits)

lemma endTest_accuracy_div:
  "stats_accuracy (stats (endTest s p))
     = (stats_accuracy (stats s) + calculateAccuracy s + 1) div 2"
proof -
  have "stats_accuracy (stats (endTest s p))
          = js_round (of_int (stats_accuracy (stats s) + calculateAccuracy s) / 2)"
    by (simp add: endTest_stats_eq)
  then show ?thesis
    by (simp only: js_round_half)
qed

text \<open>
  C6. Ending a session stores: as best words per minute the larger of the stored figure
  and the session's; as accuracy the mean of the stored and the session's accuracy,
  rounded to the nearest integer with a half rounded up; the character counts increased
  by the session's correct, incorrect and completed characters; and one more completed
  test. From the stored accuracy 0 a session of accuracy 80 gives 40, and a following
  session of accuracy 100 gives 70.
\<close>

theorem endTest_stats:
  "stats (endTest s p) =
     \<lparr> stats_wpm = num_max (stats_wpm (stats s)) (sessionWpm s),
       stats_accuracy = js_round (of_int (stats_accuracy (stats s) + calculateAccuracy s) / 2),
       stats_correctChars = stats_correctChars (stats s) + int (getCorrectCharCount s),
       stats_incorrectChars = stats_incorrectChars (stats s)
          + (int (getCompletedCharCount s) - int (getCorrectCharCount s)),
       stats_totalChars = stats_totalChars (stats s) + int (getCompletedCharCount s),
       stats_completedTests = stats_completedTests (stats s) + 1 \<rparr>
   \<and> js_round (of_int (stats_accuracy (stats s) + calculateAccuracy s) / 2)
       = (stats_accuracy (stats s) + calculateAccuracy s + 1) div 2
   \<and> num_max (Finite a) (Finite b) = Finite (max a b)
   \<and> (stats_accuracy (stats s) = 0 \<and> calculateAccuracy s = 80 \<longrightarrow>
        stats_accuracy (stats (endTest s p)) = 40)
   \<and> (stats_accuracy (stats s) = 40 \<and> calculateAccuracy s = 100 \<longrightarrow>
        stats_accuracy (stats (endTest s p)) = 70)"
proof (intro conjI impI)
  show "stats (endTest s p) =
     \<lparr> stats_wpm = num_max (stats_wpm (stats s)) (sessionWpm s),
       stats_accuracy = js_round (of_int (stats_accuracy (stats s) + calculateAccuracy s) / 2),
       stats_correctChars = stats_correctChars (stats s) + int (getCorrectCharCount s),
       stats_incorrectChars = stats_incorrectChars (stats s)
          + (int (getCompletedCharCount s) - int (getCorrectCharCount s)),
       stats_totalChars = stats_totalChars (stats s) + int (getCompletedCharCount s),
       stats_completedTests = stats_completedTests (stats s) + 1 \<rparr>"
    by (rule endTest_stats_eq)
next
  show "js_round (of_int (stats_accuracy (stats s) + calculateAccuracy s) / 2)
       = (stats_accuracy (stats s) + calculateAccuracy s + 1) div 2"
    by (rule js_round_half)
next
  show "num_max (Finite a) (Finite b) = Finite (max a b)"
    by (rule num_max_Finite)
next
  assume "stats_accuracy (stats s) = 0 \<and> calculateAccuracy s = 80"
  then show "stats_accuracy (stats (endTest s p)) = 40"
    by (simp add: endTest_accuracy_div)
next
  assume "stats_accuracy (stats s) = 40 \<and> calculateAccuracy s = 100"
  then show "stats_accuracy (stats (endTest s p)) = 70"
    by (simp add: endTest_accuracy_div)
qed

text \<open>
  The two sessions of the scenario, run on the handlers: the word \<open>abcde\<close> under the
  relaxed policy, first typed with one mistake, then, after a reset, without.
\<close>

theorem endTest_stats_witness:
  "stats_accuracy (stats (typeKeys 0 (freshSession Relaxed Words [''abcde'']) ''abcdx'')) = 0
   \<and> calculateAccuracy (typeKeys 0 (freshSession Relaxed Words [''abcde'']) ''abcdx'') = 80
   \<and> stats_accuracy (stats (endTest (typeKeys 0 (freshSession Relaxed Words [''abcde'']) ''abcdx'')
         (typeKeys 0 (freshSession Relaxed Words [''abcde'']) ''abcdx''))) = 40
   \<and> stats_accuracy (stats (typeKeys 0 (freshSession Relaxed Words [''abcde'']) ''abcdx '')) = 40
   \<and> stats_completedTests (stats (typeKeys 0 (freshSession Relaxed Words [''abcde'']) ''abcdx '')) = 1
   \<and> stats_accuracy (stats (typeKeys 0
         (resetTest [''abcde''] (typeKeys 0 (freshSession Relaxed Words [''abcde'']) ''abcdx ''))
         ''abcde'')) = 40
   \<and> calculateAccuracy (typeKeys 0
         (resetTest [''abcde''] (typeKeys 0 (freshSession Relaxed Words [''abcde'']) ''abcdx ''))
         ''abcde'') = 100
   \<and> stats_accuracy (stats (endTest
         (typeKeys 0
           (resetTest [''abcde''] (typeKeys 0 (freshSession Relaxed Words [''abcde'']) ''abcdx ''))
           ''abcde'')
         (typeKeys 0
           (resetTest [''abcde''] (typeKeys 0 (freshSession Relaxed Words [''abcde'']) ''abcdx ''))
           ''abcde''))) = 70
   \<and> stats_accuracy (stats (typeKeys 0
         (resetTest [''abcde''] (typeKeys 0 (freshSession Relaxed Words [''abcde'']) ''abcdx ''))
         ''abcde '')) = 70
   \<and> stats_completedTests (stats (typeKeys 0
         (resetTest [''abcde''] (typeKeys 0 (freshSession Relaxed Words [''abcde'']) ''abcdx ''))
         ''abcde '')) = 2"
proof -
  let ?s1 = "typeKeys 0 (freshSession Relaxed Words [''abcde'']) ''abcdx''"
  let ?e1 = "typeKeys 0 (freshSession Relaxed Words [''abcde'']) ''abcdx ''"
  let ?s2 = "typeKeys 0 (resetTest [''abcde''] ?e1) ''abcde''"
  let ?e2 = "typeKeys 0 (resetTest [''abcde''] ?e1) ''abcde ''"
  have a1: "stats_accuracy (stats ?s1) = 0" by code_simp
  have a2: "calculateAccuracy ?s1 = 80" by code_simp
  have a3: "stats_accuracy (stats ?e1) = 40" by code_simp
  have a4: "stats_completedTests (stats ?e1) = 1" by code_simp
  have b1: "stats_accuracy (stats ?s2) = 40" by code_simp
  have b2: "calculateAccuracy ?s2 = 100" by code_simp
  have b3: "stats_accuracy (stats ?e2) = 70" by code_simp
  have b4: "stats_completedTests (stats ?e2) = 2" by code_simp
  from endTest_stats [of ?s1 ?s1] a1 a2
  have c1: "stats_accuracy (stats (endTest ?s1 ?s1)) = 40" by blast
  from endTest_stats [of ?s2 ?s2] b1 b2
  have c2: "stats_accuracy (stats (endTest ?s2 ?s2)) = 70" by blast
  from a1 a2 a3 a4 b1 b2 b3 b4 c1 c2 show ?thesis by simp
qed

subsection \<open>Challenge participants\<close>

lemma findIndex_None_iff: "(findIndex P xs = None) = (\<forall>x \<in> set xs. \<not> P x)"
  by (induction xs) auto

lemma findIndex_SomeD:
  "findIndex P xs = Some i \<Longrightarrow> i < length xs \<and> P (xs ! i) \<and> (\<forall>j<i. \<not> P (xs ! j))"
proof (induction xs arbitrary: i)
  case Nil
  then show ?case by simp
next
  case (Cons x xs)
  show ?case
  proof (cases "P x")
    case True
    with Cons.prems show ?thesis by simp
  next
    case False
    with Cons.prems obtain k where k: "findIndex P xs = Some k" "i = Suc k"
      by auto
    from Cons.IH [OF k(1)] False k(2) show ?thesis
      by (auto simp add: less_Suc_eq_0_disj)
  qed
qed

lemma findIndex_update:
  "findIndex P xs = Some i \<Longrightarrow> P y \<Longrightarrow> findIndex P (xs[i := y]) = Some i"
proof (induction xs arbitrary: i)
  case Nil
  then show ?case by simp
next
  case (Cons x xs)
  show ?case
  proof (cases "P x")
    case True
    with Cons.prems show ?thesis by simp
  next
    case False
    with Cons.prems obtain k where k: "findIndex P xs = Some k" "i = Suc k"
      by auto
    from Cons.IH [OF k(1) Cons.prems(2)] False k(2) show ?thesis
      by simp
  qed
qed

lemma findIndex_append_new:
  "findIndex P xs = None \<Longrightarrow> P y \<Longrightarrow> findIndex P (xs @ [y]) = Some (length xs)"
  by (induction xs) (auto split: if_splits)

lemma findIndex_distinct:
  assumes "distinct (map f xs)" and "j < length xs" and "f (xs ! j) = u"
  shows "findIndex (\<lambda>p. f p = u) xs = Some j"
proof (cases "findIndex (\<lambda>p. f p = u) xs")
  case None
  with assms(2,3) show ?thesis
    by (auto simp add: findIndex_None_iff)
next
  case (Some i)
  from findIndex_SomeD [OF Some] have i: "i < length xs" "f (xs ! i) = u"
    by simp_all
  with assms have eq: "map f xs ! i = map f xs ! j"
    by simp
  from assms(2) i(1) have "i < length (map f xs)" "j < length (map f xs)"
    by simp_all
  with assms(1) eq have "i = j"
    by (simp only: nth_eq_iff_index_eq)
  with Some show ?thesis by simp
qed

lemma num_less_trans_ge:
  "\<not> num_less x w \<Longrightarrow> \<not> num_less w w' \<Longrightarrow> \<not> num_less x w'"
  by (cases x; cases w; cases w') simp_all

lemma num_less_irrefl: "\<not> num_less w w"
  by (cases w) simp_all

lemma updateParticipants_names:
  "map p_name (updateParticipants u w a ps) =
     (if u \<in> set (map p_name ps) then map p_name ps else map p_name ps @ [u])"
proof (cases "findIndex (\<lambda>p. p_name p = u) ps")
  case None
  then have "u \<notin> set (map p_name ps)"
    by (auto simp add: findIndex_None_iff)
  with None show ?thesis
    by (simp add: updateParticipants_def)
next
  case (Some i)
  from findIndex_SomeD [OF Some] have i: "i < length ps" "p_name (ps ! i) = u"
    by simp_all
  then have "u \<in> set (map p_name ps)"
    using nth_mem [of i ps] by auto
  moreover from i have "(map p_name ps)[i := p_name (ps ! i)] = map p_name ps"
    using list_update_id [of "map p_name ps" i] by simp
  ultimately show ?thesis using Some
    by (simp add: updateParticipants_def map_update)
qed

lemma updateParticipants_distinct:
  "distinct (map p_name ps) \<Longrightarrow> distinct (map p_name (updateParticipants u w a ps))"
  by (simp add: updateParticipants_names)

lemma updateParticipants_other:
  assumes "j < length ps" and "p_name (ps ! j) \<noteq> u"
  shows "updateParticipants u w a ps ! j = ps ! j"
proof (cases "findIndex (\<lambda>p. p_name p = u) ps")
  case None
  with assms show ?thesis
    by (simp add: updateParticipants_def nth_append)
next
  case (Some i)
  from findIndex_SomeD [OF Some] assms have "i \<noteq> j"
    by auto
  with Some show ?thesis
    by (simp add: updateParticipants_def)
qed

lemma updateParticipants_own:
  assumes "distinct (map p_name ps)" and "j < length ps" and "p_name (ps ! j) = u"
  shows "updateParticipants u w a ps ! j =
           (if num_less (p_wpm (ps ! j)) w
            then (ps ! j)\<lparr> p_wpm := w, p_accuracy := a \<rparr> else ps ! j)"
  using assms findIndex_distinct [OF assms]
  by (simp add: updateParticipants_def)

lemma updateParticipants_lower:
  assumes "\<not> num_less w w'"
  shows "updateParticipants u w' a' (updateParticipants u w a ps) = updateParticipants u w a ps"
proof (cases "findIndex (\<lambda>p. p_name p = u) ps")
  case None
  let ?ps1 = "ps @ [\<lparr> p_name = u, p_wpm = w, p_accuracy = a \<rparr>]"
  from None have ps1: "updateParticipants u w a ps = ?ps1"
    by (simp add: updateParticipants_def)
  from None have "findIndex (\<lambda>p. p_name p = u) ?ps1 = Some (length ps)"
    by (simp add: findIndex_append_new)
  with assms have "updateParticipants u w' a' ?ps1 = ?ps1"
    by (simp add: updateParticipants_def)
  with ps1 show ?thesis by simp
next
  case (Some i)
  from findIndex_SomeD [OF Some] have i: "i < length ps" "p_name (ps ! i) = u"
    by simp_all
  show ?thesis
  proof (cases "num_less (p_wpm (ps ! i)) w")
    case True
    let ?ps1 = "ps[i := (ps ! i)\<lparr> p_wpm := w, p_accuracy := a \<rparr>]"
    from Some True have ps1: "updateParticipants u w a ps = ?ps1"
      by (simp add: updateParticipants_def)
    from Some i have "findIndex (\<lambda>p. p_name p = u) ?ps1 = Some i"
      by (simp add: findIndex_update)
    with assms i have "updateParticipants u w' a' ?ps1 = ?ps1"
      by (simp add: updateParticipants_def)
    with ps1 show ?thesis by simp
  next
    case False
    with Some have ps1: "updateParticipants u w a ps = ps"
      by (simp add: updateParticipants_def)
    from False assms have "\<not> num_less (p_wpm (ps ! i)) w'"
      by (rule num_less_trans_ge)
    with Some have "updateParticipants u w' a' ps = ps"
      by (simp add: updateParticipants_def)
    with ps1 show ?thesis by simp
  qed
qed

lemma updateChallengeResult_participants:
  "map participants (updateChallengeResult chs u cid w a) =
     map (\<lambda>ch. if challenge_id ch = cid
                then updateParticipants u w a (participants ch) else participants ch) chs"
  by (simp add: updateChallengeResult_def)

lemma updateChallengeResult_distinct:
  assumes "\<forall>ch \<in> set chs. distinct (map p_name (participants ch))"
  shows "\<forall>ch \<in> set (updateChallengeResult chs u cid w a). distinct (map p_name (participants ch))"
  using assms
  by (auto simp add: updateChallengeResult_def updateParticipants_distinct)

text \<open>
  C7. Recording a result for a user in a challenge keeps the participants' names
  distinct: a user already listed keeps the single record (the list of names is
  unchanged), a new user is appended. The record of a listed user gets the new words
  per minute and accuracy only when the new words per minute are strictly greater than
  the recorded ones and is unchanged otherwise; the records of the other users are
  never touched. Hence a second result that is not better than the first (35 after 40)
  leaves the list as the first result made it.
\<close>

theorem challenge_participants:
  "(distinct (map p_name ps) \<longrightarrow> distinct (map p_name (updateParticipants u w a ps)))
   \<and> (u \<in> set (map p_name ps) \<longrightarrow>
        map p_name (updateParticipants u w a ps) = map p_name ps)
   \<and> (u \<notin> set (map p_name ps) \<longrightarrow>
        updateParticipants u w a ps = ps @ [\<lparr> p_name = u, p_wpm = w, p_accuracy = a \<rparr>])
   \<and> (distinct (map p_name ps) \<and> j < length ps \<and> p_name (ps ! j) = u \<longrightarrow>
        updateParticipants u w a ps ! j =
          (if num_less (p_wpm (ps ! j)) w
           then (ps ! j)\<lparr> p_wpm := w, p_accuracy := a \<rparr> else ps ! j))
   \<and> (j < length ps \<and> p_name (ps ! j) \<noteq> u \<longrightarrow> updateParticipants u w a ps ! j = ps ! j)
   \<and> (\<not> num_less w w' \<longrightarrow>
        updateParticipants u w' a' (updateParticipants u w a ps) = updateParticipants u w a ps)
   \<and> map participants (updateChallengeResult chs u cid w a) =
        map (\<lambda>ch. if challenge_id ch = cid
                   then updateParticipants u w a (participants ch) else participants ch) chs
   \<and> ((\<forall>ch \<in> set chs. distinct (map p_name (participants ch))) \<longrightarrow>
        (\<forall>ch \<in> set (updateChallengeResult chs u cid w a).
            distinct (map p_name (participants ch))))"
proof (intro conjI impI)
  assume "distinct (map p_name ps)"
  then show "distinct (map p_name (updateParticipants u w a ps))"
    by (rule updateParticipants_distinct)
next
  assume "u \<in> set (map p_name ps)"
  then show "map p_name (updateParticipants u w a ps) = map p_name ps"
    by (simp add: updateParticipants_names)
next
  assume "u \<notin> set (map p_name ps)"
  then have "findIndex (\<lambda>p. p_name p = u) ps = None"
    by (auto simp add: findIndex_None_iff)
  then show "updateParticipants u w a ps = ps @ [\<lparr> p_name = u, p_wpm = w, p_accuracy = a \<rparr>]"
    by (simp add: updateParticipants_def)
next
  assume "distinct (map p_name ps) \<and> j < length ps \<and> p_name (ps ! j) = u"
  then show "updateParticipants u w a ps ! j =
          (if num_less (p_wpm (ps ! j)) w
           then (ps ! j)\<lparr> p_wpm := w, p_accuracy := a \<rparr> else ps ! j)"
    by (simp add: updateParticipants_own)
next
  assume "j < length ps \<and> p_name (ps ! j) \<noteq> u"
  then show "updateParticipants u w a ps ! j = ps ! j"
    by (simp add: updateParticipants_other)
next
  assume "\<not> num_less w w'"
  then show "updateParticipants u w' a' (updateParticipants u w a ps) = updateParticipants u w a ps"
    by (rule updateParticipants_lower)
next
  show "map participants (updateChallengeResult chs u cid w a) =
        map (\<lambda>ch. if challenge_id ch = cid
                   then updateParticipants u w a (participants ch) else participants ch) chs"
    by (rule updateChallengeResult_participants)
next
  assume "\<forall>ch \<in> set chs. distinct (map p_name (participants ch))"
  then show "\<forall>ch \<in> set (updateChallengeResult chs u cid w a).
            distinct (map p_name (participants ch))"
    by (rule updateChallengeResult_distinct)
qed

text \<open>The scenario on a new challenge: user \<open>ann\<close> submits 40, then 35.\<close>

theorem challenge_participants_witness:
  "map participants (updateChallengeResult [sampleChallenge] ''ann'' ''1'' (Finite 40) 90)
     = [[\<lparr> p_name = ''ann'', p_wpm = Finite 40, p_accuracy = 90 \<rparr>]]
   \<and> map participants
        (updateChallengeResult
           (updateChallengeResult [sampleChallenge] ''ann'' ''1'' (Finite 40) 90)
           ''ann'' ''1'' (Finite 35) 97)
     = [[\<lparr> p_name = ''ann'', p_wpm = Finite 40, p_accuracy = 90 \<rparr>]]
   \<and> \<not> num_less (Finite 40) (Finite 35)
   \<and> updateParticipants ''ann'' (Finite 35) 97 (updateParticipants ''ann'' (Finite 40) 90 [])
     = updateParticipants ''ann'' (Finite 40) 90 []
   \<and> distinct (map p_name [\<lparr> p_name = ''ann'', p_wpm = Finite 40, p_accuracy = 90 \<rparr>])
   \<and> updateParticipants ''ann'' (Finite 35) 97
        [\<lparr> p_name = ''ann'', p_wpm = Finite 40, p_accuracy = 90 \<rparr>] ! 0
     = \<lparr> p_name = ''ann'', p_wpm = Finite 40, p_accuracy = 90 \<rparr>
   \<and> distinct (map p_name (updateParticipants ''ann'' (Finite 35) 97
        [\<lparr> p_name = ''ann'', p_wpm = Finite 40, p_accuracy = 90 \<rparr>]))"
proof -
  let ?ann = "\<lparr> p_name = ''ann'', p_wpm = Finite 40, p_accuracy = 90 \<rparr>"
  have e1: "map participants (updateChallengeResult [sampleChallenge] ''ann'' ''1'' (Finite 40) 90)
     = [[?ann]]"
    by code_simp
  have e2: "map participants
        (updateChallengeResult
           (updateChallengeResult [sampleChallenge] ''ann'' ''1'' (Finite 40) 90)
           ''ann'' ''1'' (Finite 35) 97)
     = [[?ann]]"
    by code_simp
  have h1: "\<not> num_less (Finite 40) (Finite 35)" by simp
  have h2: "distinct (map p_name [?ann])" by simp
  have h3: "(0::nat) < length [?ann]" by simp
  have h4: "p_name ([?ann] ! 0) = ''ann''" by simp
  note inst = challenge_participants [of "[?ann]" "''ann''" "Finite 35" 97 0 "Finite 35" 97 "[]" "''1''"]
  from inst h2 have c1: "distinct (map p_name (updateParticipants ''ann'' (Finite 35) 97 [?ann]))"
    by blast
  from inst h2 h3 h4 have c2: "updateParticipants ''ann'' (Finite 35) 97 [?ann] ! 0 = ?ann"
    by simp
  from challenge_participants [of "[]" "''ann''" "Finite 40" 90 0 "Finite 35" 97 "[]" "''1''"] h1
  have c3: "updateParticipants ''ann'' (Finite 35) 97 (updateParticipants ''ann'' (Finite 40) 90 [])
     = updateParticipants ''ann'' (Finite 40) 90 []"
    by blast
  from e1 e2 h1 h2 c1 c2 c3 show ?thesis by simp
qed

subsection \<open>The empty word sequence\<close>

lemma generateWords_empty: "generateWords st [] = []"
  by (simp add: generateWords_def)

lemma resetTest_empty:
  "words (resetTest [] p) = []"
  "correctChars (resetTest [] p) = []"
  "currentWordIndex (resetTest [] p) = 0"
  "currentCharIndex (resetTest [] p) = 0"
  "timeElapsed (resetTest [] p) = 0"
  "testActive (resetTest [] p) = False"
  "testComplete (resetTest [] p) = False"
  "stats (resetTest [] p) = stats p"
  "settings (resetTest [] p) = settings p"
  by (simp_all add: resetTest_def generateWords_empty)

lemma handleInputChange_no_word:
  assumes "words s = []" and "\<not> testComplete s"
  shows "handleInputChange now s v =
           (if \<not> testActive s \<and> 0 < length v
            then s\<lparr> testActive := True, startTime := now \<rparr> else s)"
  using assms
  by (simp add: handleInputChange_def hasCurrentWord_def)

lemma to_double_zero: "to_double 0 = 0"
  by (simp add: to_double_def)

lemma empty_session_metrics:
  assumes "words c = []" and "currentWordIndex c = 0" and "currentCharIndex c = 0"
      and "correctChars c = []" and "timeElapsed c = 0"
  shows "getCompletedCharCount c = 0" and "getCorrectCharCount c = 0"
    and "calculateAccuracy c = 100" and "sessionWpm c = Finite 0"
  using assms
  by (simp_all add: getCompletedCharCount_def getCorrectCharCount_def calculateAccuracy_def
        sessionWpm_def to_double_zero)

lemma endTest_twice: "stats (endTest c (endTest c p)) = stats (endTest c p)"
  by (simp add: endTest_stats_eq)

lemma tick_time_empty:
  assumes act: "testActive c" "\<not> testComplete c"
      and tm: "mode (settings c) = Time"
      and emp: "words c = []"
  shows "testComplete (tick c now p)" and "\<not> testActive (tick c now p)"
    and "stats (tick c now p) = stats (endTest c p)"
  using assms
  by (simp_all add: tick_def Let_def endTest_frame endTest_stats_eq)

lemma tick_words_mode:
  assumes "mode (settings c) = Words"
  shows "testComplete (tick c now p) = testComplete p"
    and "stats (tick c now p) = stats p"
  using assms
  by (simp_all add: tick_def Let_def)

text \<open>
  C9 (as amended). With an empty word pool the reset yields the empty word sequence and
  an idle session that is not complete, with the stored statistics untouched. Over the
  empty sequence nothing faults: an input change does nothing but mark an idle session
  active on its first non-empty input. Once such a session is active, the timer tick
  completes it in time mode, storing words per minute 0, accuracy 100 and no characters
  for it; in word-count mode a tick never completes a session or touches the statistics.
\<close>

theorem empty_words_session:
  "words (resetTest [] p0) = []
   \<and> \<not> testComplete (resetTest [] p0) \<and> \<not> testActive (resetTest [] p0)
   \<and> stats (resetTest [] p0) = stats p0
   \<and> (words s = [] \<and> \<not> testComplete s \<longrightarrow>
        handleInputChange t0 s v =
          (if \<not> testActive s \<and> 0 < length v
           then s\<lparr> testActive := True, startTime := t0 \<rparr> else s))
   \<and> (mode (settings p0) = Time \<and> v \<noteq> [] \<longrightarrow>
        testComplete (tick (handleInputChange t0 (resetTest [] p0) v) now p)
        \<and> \<not> testActive (tick (handleInputChange t0 (resetTest [] p0) v) now p)
        \<and> stats (tick (handleInputChange t0 (resetTest [] p0) v) now p) =
            \<lparr> stats_wpm = num_max (stats_wpm (stats p0)) (Finite 0),
              stats_accuracy = (stats_accuracy (stats p0) + 100 + 1) div 2,
              stats_correctChars = stats_correctChars (stats p0),
              stats_incorrectChars = stats_incorrectChars (stats p0),
              stats_totalChars = stats_totalChars (stats p0),
              stats_completedTests = stats_completedTests (stats p0) + 1 \<rparr>)
   \<and> (mode (settings c) = Words \<longrightarrow>
        testComplete (tick c now p) = testComplete p \<and> stats (tick c now p) = stats p)"
proof (intro conjI impI)
  show "words (resetTest [] p0) = []" "\<not> testComplete (resetTest [] p0)"
    "\<not> testActive (resetTest [] p0)" "stats (resetTest [] p0) = stats p0"
    by (simp_all add: resetTest_empty)
next
  assume "words s = [] \<and> \<not> testComplete s"
  then show "handleInputChange t0 s v =
          (if \<not> testActive s \<and> 0 < length v
           then s\<lparr> testActive := True, startTime := t0 \<rparr> else s)"
    by (simp add: handleInputChange_no_word)
next
  assume h: "mode (settings p0) = Time \<and> v \<noteq> []"
  let ?c = "handleInputChange t0 (resetTest [] p0) v"
  from h have c: "?c = (resetTest [] p0)\<lparr> testActive := True, startTime := t0 \<rparr>"
    by (simp add: handleInputChange_no_word resetTest_empty)
  have act: "testActive ?c" "\<not> testComplete ?c" "mode (settings ?c) = Time" "words ?c = []"
    using h by (simp_all add: c resetTest_empty)
  have m: "getCompletedCharCount ?c = 0" "getCorrectCharCount ?c = 0"
    "calculateAccuracy ?c = 100" "sessionWpm ?c = Finite 0"
    by (rule empty_session_metrics; simp add: c resetTest_empty)+
  from tick_time_empty [OF act] show "testComplete (tick ?c now p)"
    "\<not> testActive (tick ?c now p)"
    by simp_all
  have "stats (tick ?c now p) = stats (endTest ?c p)"
    by (rule tick_time_empty [OF act])
  also have "\<dots> = \<lparr> stats_wpm = num_max (stats_wpm (stats ?c)) (Finite 0),
              stats_accuracy = js_round (of_int (stats_accuracy (stats ?c) + 100) / 2),
              stats_correctChars = stats_correctChars (stats ?c),
              stats_incorrectChars = stats_incorrectChars (stats ?c),
              stats_totalChars = stats_totalChars (stats ?c),
              stats_completedTests = stats_completedTests (stats ?c) + 1 \<rparr>"
    by (simp add: endTest_stats_eq m)
  also have "stats ?c = stats p0"
    by (simp add: c resetTest_empty)
  finally show "stats (tick ?c now p) =
            \<lparr> stats_wpm = num_max (stats_wpm (stats p0)) (Finite 0),
              stats_accuracy = (stats_accuracy (stats p0) + 100 + 1) div 2,
              stats_correctChars = stats_correctChars (stats p0),
              stats_incorrectChars = stats_incorrectChars (stats p0),
              stats_totalChars = stats_totalChars (stats p0),
              stats_completedTests = stats_completedTests (stats p0) + 1 \<rparr>"
    by (simp only: js_round_half)
next
  assume "mode (settings c) = Words"
  then show "testComplete (tick c now p) = testComplete p"
    "stats (tick c now p) = stats p"
    by (simp_all add: tick_words_mode)
qed

text \<open>In time mode, from the initial state: a key, then the first timer tick.\<close>

theorem empty_words_session_witness:
  "mode (settings initialState) = Time \<and> ''a'' \<noteq> []
   \<and> words (resetTest [] initialState) = [] \<and> \<not> testComplete (resetTest [] initialState)
   \<and> handleInputChange 5 (resetTest [] initialState) ''a''
       = (resetTest [] initialState)\<lparr> testActive := True, startTime := 5 \<rparr>
   \<and> testComplete (tick (handleInputChange 5 (resetTest [] initialState) ''a'') 105
         (handleInputChange 5 (resetTest [] initialState) ''a''))
   \<and> stats (tick (handleInputChange 5 (resetTest [] initialState) ''a'') 105
         (handleInputChange 5 (resetTest [] initialState) ''a''))
       = \<lparr> stats_wpm = Finite 0, stats_accuracy = 50, stats_correctChars = 0,
           stats_incorrectChars = 0, stats_totalChars = 0, stats_completedTests = 1 \<rparr>"
proof -
  let ?r = "resetTest [] initialState"
  let ?c = "handleInputChange 5 ?r ''a''"
  have h1: "mode (settings initialState) = Time" by code_simp
  have h2: "''a'' \<noteq> []" by simp
  have h3: "\<not> testActive ?r" by code_simp
  have st: "stats initialState = DEFAULT_STATS" by (simp add: initialState_def)
  note inst = empty_words_session [of initialState ?r 5 "''a''" 105 ?c ?c]
  from inst have r: "words ?r = []" "\<not> testComplete ?r" by blast+
  with inst h3 have i: "?c = ?r\<lparr> testActive := True, startTime := 5 \<rparr>" by simp
  from inst h1 h2 have t: "testComplete (tick ?c 105 ?c)" by blast
  from inst h1 h2 have "stats (tick ?c 105 ?c) =
            \<lparr> stats_wpm = num_max (stats_wpm (stats initialState)) (Finite 0),
              stats_accuracy = (stats_accuracy (stats initialState) + 100 + 1) div 2,
              stats_correctChars = stats_correctChars (stats initialState),
              stats_incorrectChars = stats_incorrectChars (stats initialState),
              stats_totalChars = stats_totalChars (stats initialState),
              stats_completedTests = stats_completedTests (stats initialState) + 1 \<rparr>"
    by blast
  then have s: "stats (tick ?c 105 ?c) =
       \<lparr> stats_wpm = Finite 0, stats_accuracy = 50, stats_correctChars = 0,
         stats_incorrectChars = 0, stats_totalChars = 0, stats_completedTests = 1 \<rparr>"
    by (simp add: st DEFAULT_STATS_def num_max_def)
  from h1 h2 r i t s show ?thesis by simp
qed

text \<open>
  C9 (as stated) fails. Over the empty word sequence the fresh session is not complete
  in either mode, and a key press only makes it active. In word-count mode the timer
  tick leaves it incomplete, however late it fires; in time mode the tick completes it
  and counts an accuracy of 100 for it, which moves the stored accuracy from 0 to 50.
\<close>

theorem empty_words_counterexample:
  "words (freshSession Relaxed Words []) = []
   \<and> \<not> testComplete (freshSession Relaxed Words [])
   \<and> \<not> testComplete (typeChar 5 (freshSession Relaxed Words []) (CHR ''a''))
   \<and> testActive (typeChar 5 (freshSession Relaxed Words []) (CHR ''a''))
   \<and> \<not> testComplete (tick (typeChar 5 (freshSession Relaxed Words []) (CHR ''a'')) 100000
         (typeChar 5 (freshSession Relaxed Words []) (CHR ''a'')))
   \<and> words (freshSession Relaxed Time []) = []
   \<and> \<not> testComplete (freshSession Relaxed Time [])
   \<and> \<not> testComplete (typeChar 5 (freshSession Relaxed Time []) (CHR ''a''))
   \<and> stats_accuracy (stats (tick (typeChar 5 (freshSession Relaxed Time []) (CHR ''a'')) 105
         (typeChar 5 (freshSession Relaxed Time []) (CHR ''a'')))) = 50"
  by code_simp

end
